theory Spec2Isabelle
  imports Complex_Main
begin

section \<open>Tensor elements\<close>

text \<open>
  A tensor element is a floating-point number.  Rounding and overflow are idealised away
  (a finite value is a real number, zero is unsigned), the special values are kept: HOL's
  \<open>ln 0 = 0\<close> and \<open>x / 0 = 0\<close> are not what \<open>torch\<close> and \<open>numpy\<close> compute, so
  division by zero, the logarithm of zero and \<open>0 * inf\<close> are written out as IEEE 754
  defines them.  A statement that is to hold for the rounded and overflowing arithmetic of
  the machine as well is made over an arbitrary arithmetic (the record \<open>arith\<close> below), of
  which this one is an instance.
\<close>

datatype fl = Fin real | PInf | NInf | NaN

fun fneg :: "fl \<Rightarrow> fl" where
  "fneg (Fin a) = Fin (- a)"
| "fneg PInf = NInf"
| "fneg NInf = PInf"
| "fneg NaN = NaN"

fun fadd :: "fl \<Rightarrow> fl \<Rightarrow> fl" where
  "fadd NaN _ = NaN"
| "fadd _ NaN = NaN"
| "fadd (Fin a) (Fin b) = Fin (a + b)"
| "fadd PInf NInf = NaN"
| "fadd NInf PInf = NaN"
| "fadd PInf _ = PInf"
| "fadd _ PInf = PInf"
| "fadd NInf _ = NInf"
| "fadd _ NInf = NInf"

definition fsub :: "fl \<Rightarrow> fl \<Rightarrow> fl" where
  "fsub a b = fadd a (fneg b)"

definition inf_of_sign :: "bool \<Rightarrow> fl" where
  "inf_of_sign positive = (if positive then PInf else NInf)"

fun fmul :: "fl \<Rightarrow> fl \<Rightarrow> fl" where
  "fmul NaN _ = NaN"
| "fmul _ NaN = NaN"
| "fmul (Fin a) (Fin b) = Fin (a * b)"
| "fmul (Fin a) PInf = (if a = 0 then NaN else inf_of_sign (0 < a))"
| "fmul (Fin a) NInf = (if a = 0 then NaN else inf_of_sign (a < 0))"
| "fmul PInf (Fin b) = (if b = 0 then NaN else inf_of_sign (0 < b))"
| "fmul NInf (Fin b) = (if b = 0 then NaN else inf_of_sign (b < 0))"
| "fmul PInf PInf = PInf"
| "fmul NInf NInf = PInf"
| "fmul PInf NInf = NInf"
| "fmul NInf PInf = NInf"

fun fdiv :: "fl \<Rightarrow> fl \<Rightarrow> fl" where
  "fdiv NaN _ = NaN"
| "fdiv _ NaN = NaN"
| "fdiv (Fin a) (Fin b) =
     (if b \<noteq> 0 then Fin (a / b) else if a = 0 then NaN else inf_of_sign (0 < a))"
| "fdiv (Fin a) PInf = Fin 0"
| "fdiv (Fin a) NInf = Fin 0"
| "fdiv PInf (Fin b) = inf_of_sign (0 \<le> b)"
| "fdiv NInf (Fin b) = inf_of_sign (b < 0)"
| "fdiv PInf PInf = NaN"
| "fdiv PInf NInf = NaN"
| "fdiv NInf PInf = NaN"
| "fdiv NInf NInf = NaN"

fun flog :: "fl \<Rightarrow> fl" where
  "flog (Fin a) = (if 0 < a then Fin (ln a) else if a = 0 then NInf else NaN)"
| "flog PInf = PInf"
| "flog NInf = NaN"
| "flog NaN = NaN"

fun fexp :: "fl \<Rightarrow> fl" where
  "fexp (Fin a) = Fin (exp a)"
| "fexp PInf = PInf"
| "fexp NInf = Fin 0"
| "fexp NaN = NaN"

fun fsqrt :: "fl \<Rightarrow> fl" where
  "fsqrt (Fin a) = (if 0 \<le> a then Fin (sqrt a) else NaN)"
| "fsqrt PInf = PInf"
| "fsqrt NInf = NaN"
| "fsqrt NaN = NaN"

text \<open>\<open>x ** 2\<close> on a tensor element.\<close>

definition fsq :: "fl \<Rightarrow> fl" where
  "fsq a = fmul a a"

text \<open>The sum of the elements of a one-dimensional tensor (\<open>0.0\<close> for none).\<close>

definition fsum :: "fl list \<Rightarrow> fl" where
  "fsum xs = foldr fadd xs (Fin 0)"

section \<open>Errors\<close>

text \<open>
  Every exception of the source is a value.  The constructors name who raises it: the
  tensor library on shapes it refuses or on an empty list of tensors, the interpreter on
  an expression of the code
  (indexing, iterating, \<open>len\<close>, attribute access, integer division), and \<open>Ext\<close> for an
  exception raised inside a callable the code receives or imports (the networks, the
  transforms, the helpers of \<open>utils.torch\<close>), whose exceptions are of a type \<open>'e\<close> of
  their own.
\<close>

datatype 'e exn =
    ShapeError
  | EmptyListError
  | TypeError
  | IndexError
  | KeyError
  | AttributeError
  | ZeroDivisionError
  | Ext 'e

definition ebind :: "'e exn + 'a \<Rightarrow> ('a \<Rightarrow> 'e exn + 'b) \<Rightarrow> 'e exn + 'b" where
  "ebind m f = (case m of Inl e \<Rightarrow> Inl e | Inr v \<Rightarrow> f v)"

text \<open>Evaluating a list of fallible steps left to right, stopping at the first exception.\<close>

fun sequence :: "('e exn + 'a) list \<Rightarrow> 'e exn + 'a list" where
  "sequence [] = Inr []"
| "sequence (m # ms) = ebind m (\<lambda>v. ebind (sequence ms) (\<lambda>vs. Inr (v # vs)))"

text \<open>Python's \<open>xs[i]\<close> on a list or tuple: a negative index counts from the end.\<close>

definition py_index :: "'a list \<Rightarrow> int \<Rightarrow> 'e exn + 'a" where
  "py_index xs i =
     (if 0 \<le> i \<and> i < int (length xs) then Inr (xs ! nat i)
      else if i < 0 \<and> - int (length xs) \<le> i then Inr (xs ! nat (int (length xs) + i))
      else Inl IndexError)"

section \<open>One- and two-dimensional tensors\<close>

type_synonym vec = "fl list"
type_synonym mat = "fl list list"

definition ncols :: "'a list list \<Rightarrow> nat" where
  "ncols A = (case A of [] \<Rightarrow> 0 | r # _ \<Rightarrow> length r)"

text \<open>
  An elementwise operation on two one-dimensional tensors, with the library's
  broadcasting: equal sizes, or one of them of size 1; anything else is refused.
\<close>

definition broadcast1 :: "('a \<Rightarrow> 'b \<Rightarrow> 'c) \<Rightarrow> 'a list \<Rightarrow> 'b list \<Rightarrow> 'e exn + 'c list" where
  "broadcast1 f xs ys =
     (if length xs = length ys then Inr (map2 f xs ys)
      else if length xs = 1 then Inr (map (f (hd xs)) ys)
      else if length ys = 1 then Inr (map (\<lambda>x. f x (hd ys)) xs)
      else Inl ShapeError)"

definition broadcast2 ::
  "('a \<Rightarrow> 'b \<Rightarrow> 'c) \<Rightarrow> 'a list list \<Rightarrow> 'b list list \<Rightarrow> 'e exn + 'c list list" where
  "broadcast2 f A B =
     (if length A = length B then sequence (map2 (broadcast1 f) A B)
      else if length A = 1 then sequence (map (broadcast1 f (hd A)) B)
      else if length B = 1 then sequence (map (\<lambda>r. broadcast1 f r (hd B)) A)
      else Inl ShapeError)"

text \<open>\<open>A @ B\<close> on two-dimensional tensors: the inner sizes must agree.\<close>

definition column :: "'a list list \<Rightarrow> nat \<Rightarrow> 'a list" where
  "column B j = map (\<lambda>r. r ! j) B"

definition matmul :: "mat \<Rightarrow> mat \<Rightarrow> 'e exn + mat" where
  "matmul A B =
     (if (\<forall>r \<in> set A. length r = length B) \<and> (\<forall>r \<in> set B. length r = ncols B)
      then Inr (map (\<lambda>r. map (\<lambda>j. fsum (map2 fmul r (column B j))) [0..<ncols B]) A)
      else Inl ShapeError)"

definition scale :: "fl \<Rightarrow> mat \<Rightarrow> mat" where
  "scale c A = map (map (fmul c)) A"

text \<open>\<open>torch.trace\<close>: the sum of the diagonal of a two-dimensional tensor.\<close>

definition trace :: "mat \<Rightarrow> fl" where
  "trace A = fsum (map (\<lambda>i. A ! i ! i) [0..<min (length A) (ncols A)])"

text \<open>\<open>torch.norm\<close> of a one-dimensional tensor: the 2-norm.\<close>

definition norm2 :: "vec \<Rightarrow> fl" where
  "norm2 v = fsqrt (fsum (map fsq v))"

text \<open>
  The mean of a one-dimensional tensor or array (\<open>nan\<close> for an empty one), and
  \<open>mean(A, dim=0)\<close> of a two-dimensional one: the mean over the sample dimension, one
  value for each column.  A matrix is the list of its rows, so a matrix without rows has
  no columns here either.
\<close>

definition mean1 :: "vec \<Rightarrow> fl" where
  "mean1 v = fdiv (fsum v) (Fin (real (length v)))"

definition mean_dim0 :: "mat \<Rightarrow> vec" where
  "mean_dim0 A = map (\<lambda>j. mean1 (column A j)) [0..<ncols A]"

text \<open>
  \<open>torch.cat(ms, dim=0)\<close> on a list of two-dimensional tensors: refused for an empty
  list, and for tensors whose rows differ in width.
\<close>

definition cat0 :: "mat list \<Rightarrow> 'e exn + mat" where
  "cat0 ms =
     (if ms = [] then Inl EmptyListError
      else if \<forall>r \<in> set (concat ms). length r = ncols (concat ms) then Inr (concat ms)
      else Inl ShapeError)"

section \<open>\<open>utils/metrics/fid.py\<close>: the Frechet distance\<close>

text \<open>
  \<open>_frechet_distance\<close>.  \<open>matrix_sqrt\<close> is imported from \<open>utils.torch\<close>, which is not
  part of the sources at hand: it is a parameter.  Python evaluates the left operand of
  the outer \<open>+\<close> first, then \<open>x_cov + y_cov\<close>, then the product, its square root, the
  scaling, the subtraction and the trace.
\<close>

definition frechet_distance ::
  "(mat \<Rightarrow> 'e exn + mat) \<Rightarrow> vec \<Rightarrow> vec \<Rightarrow> mat \<Rightarrow> mat \<Rightarrow> 'e exn + fl" where
  "frechet_distance matrix_sqrt x_mean y_mean x_cov y_cov =
     ebind (broadcast1 fsub x_mean y_mean) (\<lambda>d.
     let lhs = fsq (norm2 d) in
     ebind (broadcast2 fadd x_cov y_cov) (\<lambda>s.
     ebind (matmul x_cov y_cov) (\<lambda>p.
     ebind (matrix_sqrt p) (\<lambda>r.
     ebind (broadcast2 fsub s (scale (Fin 2) r)) (\<lambda>t.
     Inr (fadd lhs (trace t)))))))"

text \<open>
  The same function over any arithmetic of tensor elements.  The operations that the
  tensor library applies to elements are the fields of a record, and nothing is assumed
  of them: they may round, overflow and return \<open>inf\<close> or \<open>nan\<close> as 32-bit floats do.
  \<open>t_norm\<close> is \<open>torch.norm\<close> of a one-dimensional tensor, \<open>t_pow2\<close> is \<open>x ** 2\<close>,
  \<open>t_twice\<close> is \<open>2 * x\<close>, \<open>t_dot\<close> gives an entry of \<open>A @ B\<close> from a row of \<open>A\<close> and a
  column of \<open>B\<close>, and \<open>t_sum\<close> is the reduction by which \<open>torch.trace\<close> adds up the
  diagonal.  What belongs to the code is which operation is applied to which elements,
  and which shapes are refused.
\<close>

record 'a arith =
  t_add :: "'a \<Rightarrow> 'a \<Rightarrow> 'a"
  t_sub :: "'a \<Rightarrow> 'a \<Rightarrow> 'a"
  t_twice :: "'a \<Rightarrow> 'a"
  t_pow2 :: "'a \<Rightarrow> 'a"
  t_norm :: "'a list \<Rightarrow> 'a"
  t_dot :: "'a list \<Rightarrow> 'a list \<Rightarrow> 'a"
  t_sum :: "'a list \<Rightarrow> 'a"

definition matmul_in :: "'a arith \<Rightarrow> 'a list list \<Rightarrow> 'a list list \<Rightarrow> 'e exn + 'a list list" where
  "matmul_in ar A B =
     (if (\<forall>r \<in> set A. length r = length B) \<and> (\<forall>r \<in> set B. length r = ncols B)
      then Inr (map (\<lambda>r. map (\<lambda>j. t_dot ar r (column B j)) [0..<ncols B]) A)
      else Inl ShapeError)"

definition trace_in :: "'a arith \<Rightarrow> 'a list list \<Rightarrow> 'a" where
  "trace_in ar A = t_sum ar (map (\<lambda>i. A ! i ! i) [0..<min (length A) (ncols A)])"

definition frechet_distance_in ::
  "'a arith \<Rightarrow> ('a list list \<Rightarrow> 'e exn + 'a list list) \<Rightarrow> 'a list \<Rightarrow> 'a list
     \<Rightarrow> 'a list list \<Rightarrow> 'a list list \<Rightarrow> 'e exn + 'a" where
  "frechet_distance_in ar matrix_sqrt x_mean y_mean x_cov y_cov =
     ebind (broadcast1 (t_sub ar) x_mean y_mean) (\<lambda>d.
     let lhs = t_pow2 ar (t_norm ar d) in
     ebind (broadcast2 (t_add ar) x_cov y_cov) (\<lambda>s.
     ebind (matmul_in ar x_cov y_cov) (\<lambda>p.
     ebind (matrix_sqrt p) (\<lambda>r.
     ebind (broadcast2 (t_sub ar) s (map (map (t_twice ar)) r)) (\<lambda>t.
     Inr (t_add ar lhs (trace_in ar t)))))))"

text \<open>The arithmetic without rounding, in which \<open>frechet_distance\<close> above is written.\<close>

definition exact_arith :: "fl arith" where
  "exact_arith =
     \<lparr>t_add = fadd, t_sub = fsub, t_twice = fmul (Fin 2), t_pow2 = fsq, t_norm = norm2,
      t_dot = (\<lambda>r c. fsum (map2 fmul r c)), t_sum = fsum\<rparr>"

section \<open>\<open>modules/partial/encoding.py\<close>: \<open>ContractingBlock\<close>\<close>

datatype layer =
    Conv2d int int int int int string
  | BatchNorm2d int
  | InstanceNorm2d int
  | PixelNorm2d
  | LayerNorm2d int
  | ReLU
  | LeakyReLU real

text \<open>\<open>not c_out\<close> on an optional integer: true for \<open>None\<close> and for \<open>0\<close>.\<close>

definition py_not :: "int option \<Rightarrow> bool" where
  "py_not v = (case v of None \<Rightarrow> True | Some c \<Rightarrow> c = 0)"

text \<open>The \<open>switcher\<close> dictionary of the constructor, looked up with \<open>switcher[norm_type]\<close>.\<close>

definition switcher :: "int \<Rightarrow> string \<Rightarrow> 'e exn + layer" where
  "switcher c_out norm_type =
     (if norm_type = ''batch'' then Inr (BatchNorm2d c_out)
      else if norm_type = ''instance'' then Inr (InstanceNorm2d c_out)
      else if norm_type = ''pixel'' then Inr PixelNorm2d
      else if norm_type = ''layer'' then Inr (LayerNorm2d c_out)
      else Inl KeyError)"

text \<open>
  \<open>ContractingBlock.__init__\<close>: the layers handed to \<open>nn.Sequential\<close>.  The arguments of
  \<open>Conv2d\<close> are in the order input channels, output channels, kernel size, padding,
  stride, padding mode.
\<close>

definition ContractingBlock_init ::
  "int \<Rightarrow> bool \<Rightarrow> int \<Rightarrow> string \<Rightarrow> int option \<Rightarrow> int \<Rightarrow> int \<Rightarrow> string \<Rightarrow> string
     \<Rightarrow> 'e exn + layer list" where
  "ContractingBlock_init c_in use_norm kernel_size activation c_out stride padding
       padding_mode norm_type =
     (let c_out' = (if py_not c_out then c_in * 2 else the c_out);
          layers = [Conv2d c_in c_out' kernel_size padding stride padding_mode]
      in ebind (if use_norm
               then ebind (switcher c_out' norm_type) (\<lambda>n. Inr (layers @ [n]))
               else Inr layers) (\<lambda>layers.
         Inr (layers @ [if activation = ''relu'' then ReLU else LeakyReLU 0.2])))"

text \<open>The output channel count of a block: that of its convolution, the first layer.\<close>

fun out_channels :: "layer list \<Rightarrow> int option" where
  "out_channels (Conv2d _ c _ _ _ _ # _) = Some c"
| "out_channels _ = None"

section \<open>Tensors of any rank, batches and callables\<close>

text \<open>
  The images, the noise and the batches are tensors whose rank the code never fixes: it
  takes their \<open>len\<close>, indexes them and unpacks them along the first dimension.  A data
  loader yields, and a generator returns, a tensor or a tuple or list of tensors.
\<close>

datatype tensor = Scalar fl | Node "tensor list"

datatype pyval = PTensor tensor | PSeq "tensor list"

text \<open>\<open>condition_indices: Optional[Union[int, tuple]]\<close>.\<close>

datatype cond = CInt int | CTuple "int list"

text \<open>\<open>len(t)\<close>, \<open>t[i]\<close> and \<open>*t\<close> on a tensor; a tensor without dimensions refuses all three.\<close>

definition tensor_len :: "tensor \<Rightarrow> 'e exn + nat" where
  "tensor_len t = (case t of Scalar _ \<Rightarrow> Inl TypeError | Node ts \<Rightarrow> Inr (length ts))"

definition tensor_index :: "tensor \<Rightarrow> int \<Rightarrow> 'e exn + tensor" where
  "tensor_index t i = (case t of Scalar _ \<Rightarrow> Inl IndexError | Node ts \<Rightarrow> py_index ts i)"

definition tensor_unpack :: "tensor \<Rightarrow> 'e exn + tensor list" where
  "tensor_unpack t = (case t of Scalar _ \<Rightarrow> Inl TypeError | Node ts \<Rightarrow> Inr ts)"

text \<open>\<open>real_samples[i]\<close> and \<open>len(real_samples)\<close> on what the data loader yielded.\<close>

definition pyval_index :: "pyval \<Rightarrow> int \<Rightarrow> 'e exn + tensor" where
  "pyval_index v i = (case v of PTensor t \<Rightarrow> tensor_index t i | PSeq ts \<Rightarrow> py_index ts i)"

definition pyval_len :: "pyval \<Rightarrow> 'e exn + nat" where
  "pyval_len v = (case v of PTensor t \<Rightarrow> tensor_len t | PSeq ts \<Rightarrow> Inr (length ts))"

type_synonym 'e transform = "tensor \<Rightarrow> 'e exn + tensor"
type_synonym 'e generator = "tensor list \<Rightarrow> 'e exn + pyval"

text \<open>
  The Inception v3 network: everything up to its last layer, and the last layer \<open>fc\<close>,
  which the constructor of \<open>FID\<close> may replace by \<open>nn.Identity()\<close>.
\<close>

datatype 'e fc_layer = Linear "mat \<Rightarrow> 'e exn + mat" | Identity

record 'e inception_v3 =
  features :: "tensor \<Rightarrow> 'e exn + mat"
  fc :: "'e fc_layer"

definition fc_forward :: "'e fc_layer \<Rightarrow> mat \<Rightarrow> 'e exn + mat" where
  "fc_forward l x = (case l of Linear f \<Rightarrow> f x | Identity \<Rightarrow> Inr x)"

definition inception_forward :: "'e inception_v3 \<Rightarrow> tensor \<Rightarrow> 'e exn + mat" where
  "inception_forward net x = ebind (features net x) (fc_forward (fc net))"

text \<open>
  \<open>nn.Softmax(dim)\<close> on a two-dimensional tensor, along the dimension, which is 0, 1
  or their negative names.  The library subtracts the largest element before it takes
  the exponentials, \<open>exp(x - max) / sum(exp(x - max))\<close>, so that a row with an element
  \<open>inf\<close>, or of elements \<open>-inf\<close> only, or with a \<open>nan\<close>, becomes all \<open>nan\<close>, and an
  element \<open>-inf\<close> beside a finite one becomes zero.  The exponential here is exact: the
  zeros that 32-bit floats give by underflow for a finite element far below the largest
  are outside this model.
\<close>

datatype softmax = Softmax int

definition fmax2 :: "fl \<Rightarrow> fl \<Rightarrow> fl" where
  "fmax2 a b =
     (if a = NaN \<or> b = NaN then NaN
      else if a = PInf \<or> b = PInf then PInf
      else if a = NInf then b
      else if b = NInf then a
      else (case (a, b) of (Fin x, Fin y) \<Rightarrow> Fin (max x y) | _ \<Rightarrow> NaN))"

definition row_max :: "vec \<Rightarrow> fl" where
  "row_max r = (case r of [] \<Rightarrow> Fin 0 | x # xs \<Rightarrow> foldr fmax2 xs x)"

definition softmax_row :: "vec \<Rightarrow> vec" where
  "softmax_row r =
     (let es = map (\<lambda>x. fexp (fsub x (row_max r))) r
      in map (\<lambda>e. fdiv e (fsum es)) es)"

definition softmax_forward :: "softmax \<Rightarrow> mat \<Rightarrow> 'e exn + mat" where
  "softmax_forward sm A =
     (case sm of Softmax d \<Rightarrow>
        if d = 1 \<or> d = - 1 then Inr (map softmax_row A)
        else if d = 0 \<or> d = - 2
        then Inr (map (\<lambda>i. map (\<lambda>j. softmax_row (column A j) ! i) [0..<ncols A])
                    [0..<length A])
        else Inl IndexError)"

text \<open>\<open>nn.Sequential(self.inception, nn.Softmax(dim=1))\<close>.\<close>

datatype 'e sequential = Sequential "'e inception_v3" softmax

definition sequential_forward :: "'e sequential \<Rightarrow> tensor \<Rightarrow> 'e exn + mat" where
  "sequential_forward s x =
     (case s of Sequential net sm \<Rightarrow> ebind (inception_forward net x) (softmax_forward sm))"

text \<open>
  What the code imports and calls without defining it: the transforms of Inception v3,
  the helpers of \<open>utils.torch\<close> and \<open>utils.train\<close>, the random number generator, the
  data loader, the move of a tensor to a device (which fails or returns the tensor), and
  whether the process runs inside a Colab notebook.  \<open>load_inception\<close> stands for lines
  71 to 75 of the constructor: instantiating the network, loading its checkpoint, moving
  it to the device and setting it to evaluation mode.  \<open>randn\<close> takes the number of the
  draw first, then the two sizes.
\<close>

record ('e, 'd) library =
  InceptionV3Transforms :: "'e transform"
  invert_transforms :: "'e transform \<Rightarrow> 'e exn + 'e transform"
  randn :: "nat \<Rightarrow> nat \<Rightarrow> int \<Rightarrow> 'e exn + tensor"
  to_fails :: "string \<Rightarrow> tensor \<Rightarrow> 'e exn option"
  cov :: "mat \<Rightarrow> 'e exn + mat"
  matrix_sqrt :: "mat \<Rightarrow> 'e exn + mat"
  DataLoader :: "'d \<Rightarrow> int \<Rightarrow> 'e exn + pyval list"
  load_inception :: "string \<Rightarrow> string \<Rightarrow> 'e exn + 'e inception_v3"
  in_colab :: bool

definition to_device :: "('e, 'd) library \<Rightarrow> string \<Rightarrow> tensor \<Rightarrow> 'e exn + tensor" where
  "to_device lib dev t = (case to_fails lib dev t of Some e \<Rightarrow> Inl e | None \<Rightarrow> Inr t)"

section \<open>\<open>utils/metrics/fid.py\<close>: the class \<open>FID\<close>\<close>

datatype progress = Tqdm | TqdmNotebook

record 'e FID =
  inside_colab :: bool
  tqdm :: progress
  inception :: "'e inception_v3"
  device :: string
  n_samples :: int
  batch_size :: int

text \<open>\<open>FID.__init__\<close>.\<close>

definition FID_init ::
  "('e, 'd) library \<Rightarrow> string \<Rightarrow> string \<Rightarrow> int \<Rightarrow> int \<Rightarrow> bool \<Rightarrow> 'e exn + 'e FID" where
  "FID_init lib chkpts_root device0 n_samples0 batch_size0 crop_fc =
     (let device1 = (if in_colab lib then ''cuda'' else device0);
          tqdm1 = (if in_colab lib then TqdmNotebook else Tqdm)
      in ebind (load_inception lib chkpts_root device1) (\<lambda>net.
         let net1 = (if crop_fc then net\<lparr>fc := Identity\<rparr> else net)
         in Inr \<lparr>inside_colab = in_colab lib, tqdm = tqdm1, inception = net1,
                 device = device1, n_samples = n_samples0, batch_size = batch_size0\<rparr>))"

text \<open>The defaults of the constructor's parameters.\<close>

definition FID_default_chkpts_root :: string where
  "FID_default_chkpts_root = ''/home/achariso/PycharmProjects/gans-thesis/.checkpoints''"

definition FID_init_default :: "('e, 'd) library \<Rightarrow> 'e exn + 'e FID" where
  "FID_init_default lib = FID_init lib FID_default_chkpts_root ''cpu'' 512 8 True"

text \<open>
  \<open>for x in loader: if stop: break; body\<close>, over the batches the loader yields.  The
  result is the exception that ended the loop, if any, and the state it left.
\<close>

fun for_loop ::
  "('s \<Rightarrow> bool) \<Rightarrow> ('s \<Rightarrow> pyval \<Rightarrow> 'e exn + 's) \<Rightarrow> 's \<Rightarrow> pyval list \<Rightarrow> 'e exn option \<times> 's" where
  "for_loop stop body st [] = (None, st)"
| "for_loop stop body st (b # bs) =
     (if stop st then (None, st)
      else case body st b of
             Inl e \<Rightarrow> (Some e, st)
           | Inr st' \<Rightarrow> for_loop stop body st' bs)"

text \<open>Line 111 of \<open>get_embeddings\<close>, and the attribute \<open>to\<close> that line 112 looks up.\<close>

definition target_of :: "int option \<Rightarrow> pyval \<Rightarrow> 'e exn + tensor" where
  "target_of target_index real_samples =
     (case target_index of
        Some i \<Rightarrow> pyval_index real_samples i
      | None \<Rightarrow> (case real_samples of PTensor t \<Rightarrow> Inr t | PSeq _ \<Rightarrow> Inl AttributeError))"

text \<open>
  Lines 119 to 122: the inputs of the generator.  With condition indices they are the
  list of the transformed components of the batch; without, a noise tensor.
\<close>

definition gen_inputs_of ::
  "('e, 'd) library \<Rightarrow> string \<Rightarrow> 'e transform \<Rightarrow> cond option \<Rightarrow> int option \<Rightarrow> nat \<Rightarrow> nat
     \<Rightarrow> pyval \<Rightarrow> 'e exn + pyval" where
  "gen_inputs_of lib dev gen_transforms condition_indices z_dim draw cur_batch_size real_samples =
     (case condition_indices of
        Some c \<Rightarrow>
          (case c of
             CInt _ \<Rightarrow> Inl TypeError
           | CTuple idx \<Rightarrow>
               ebind (sequence (map (pyval_index real_samples) idx)) (\<lambda>gen_inputs.
               ebind (sequence (map (\<lambda>g. ebind (gen_transforms g) (to_device lib dev)) gen_inputs))
                 (\<lambda>gen_inputs. Inr (PSeq gen_inputs))))
      | None \<Rightarrow>
          (case z_dim of
             None \<Rightarrow> Inl TypeError
           | Some z \<Rightarrow>
               ebind (randn lib draw cur_batch_size z) (\<lambda>noise.
               ebind (to_device lib dev noise) (\<lambda>noise. Inr (PTensor noise)))))"

text \<open>
  \<open>gen(*gen_inputs)\<close>: the star passes the elements of a list as the arguments, and
  unpacks a tensor along its first dimension, so that the generator receives the rows of
  a noise tensor as so many arguments.
\<close>

definition call_unpacked :: "'e generator \<Rightarrow> pyval \<Rightarrow> 'e exn + pyval" where
  "call_unpacked gen gen_inputs =
     (case gen_inputs of
        PSeq ts \<Rightarrow> gen ts
      | PTensor t \<Rightarrow> ebind (tensor_unpack t) gen)"

text \<open>Lines 124 and 125: the last element of a tuple or list that the generator returned.\<close>

definition last_output :: "pyval \<Rightarrow> 'e exn + tensor" where
  "last_output fake_output =
     (case fake_output of PTensor t \<Rightarrow> Inr t | PSeq ts \<Rightarrow> py_index ts (- 1))"

text \<open>The body of the loop of \<open>get_embeddings\<close>, lines 110 to 132, on one batch.\<close>

definition embed_batch ::
  "('e, 'd) library \<Rightarrow> ('e, 'z) FID_scheme \<Rightarrow> 'e generator \<Rightarrow> 'e transform \<Rightarrow> 'e transform
     \<Rightarrow> int option \<Rightarrow> cond option \<Rightarrow> int option \<Rightarrow> nat \<Rightarrow> pyval \<Rightarrow> 'e exn + mat \<times> mat \<times> nat" where
  "embed_batch lib self gen gen_transforms gen_transforms_inv target_index condition_indices z_dim
       draw real_samples =
     ebind (target_of target_index real_samples) (\<lambda>target_output.
     ebind (to_device lib (device self) target_output) (\<lambda>target_output.
     ebind (InceptionV3Transforms lib target_output) (\<lambda>x.
     ebind (inception_forward (inception self) x) (\<lambda>real_embeddings.
     ebind (tensor_len target_output) (\<lambda>cur_batch_size.
     ebind (gen_inputs_of lib (device self) gen_transforms condition_indices z_dim draw
              cur_batch_size real_samples) (\<lambda>gen_inputs.
     ebind (call_unpacked gen gen_inputs) (\<lambda>fake_output.
     ebind (last_output fake_output) (\<lambda>fake_output.
     ebind (gen_transforms_inv fake_output) (\<lambda>fake_output.
     ebind (InceptionV3Transforms lib fake_output) (\<lambda>y.
     ebind (inception_forward (inception self) y) (\<lambda>fake_embeddings.
     Inr (real_embeddings, fake_embeddings, cur_batch_size))))))))))))"

text \<open>
  The variables of \<open>get_embeddings\<close> that the loop reads and writes, with the instance.
\<close>

record 's embed_state =
  inst :: 's
  cur_samples :: int
  real_embeddings_list :: "mat list"
  fake_embeddings_list :: "mat list"

definition embed_stop :: "('e, 'z) FID_scheme embed_state \<Rightarrow> bool" where
  "embed_stop st = (cur_samples st \<ge> n_samples (inst st))"

definition embed_body ::
  "('e, 'd) library \<Rightarrow> 'e generator \<Rightarrow> 'e transform \<Rightarrow> 'e transform \<Rightarrow> int option
     \<Rightarrow> cond option \<Rightarrow> int option \<Rightarrow> ('e, 'z) FID_scheme embed_state \<Rightarrow> pyval
     \<Rightarrow> 'e exn + ('e, 'z) FID_scheme embed_state" where
  "embed_body lib gen gen_transforms gen_transforms_inv target_index condition_indices z_dim st
       real_samples =
     ebind (embed_batch lib (inst st) gen gen_transforms gen_transforms_inv target_index
              condition_indices z_dim (length (real_embeddings_list st)) real_samples)
       (\<lambda>(real_embeddings, fake_embeddings, cur_batch_size).
          Inr (st\<lparr>real_embeddings_list := real_embeddings_list st @ [real_embeddings],
                  fake_embeddings_list := fake_embeddings_list st @ [fake_embeddings],
                  cur_samples := cur_samples st + int cur_batch_size\<rparr>))"

definition embed_loop ::
  "('e, 'd) library \<Rightarrow> ('e, 'z) FID_scheme \<Rightarrow> pyval list \<Rightarrow> 'e generator \<Rightarrow> 'e transform
     \<Rightarrow> 'e transform \<Rightarrow> int option \<Rightarrow> cond option \<Rightarrow> int option
     \<Rightarrow> 'e exn option \<times> ('e, 'z) FID_scheme embed_state" where
  "embed_loop lib self dataloader gen gen_transforms gen_transforms_inv target_index
       condition_indices z_dim =
     for_loop embed_stop
       (embed_body lib gen gen_transforms gen_transforms_inv target_index condition_indices z_dim)
       \<lparr>inst = self, cur_samples = 0, real_embeddings_list = [], fake_embeddings_list = []\<rparr>
       dataloader"

text \<open>
  \<open>FID.get_embeddings\<close>: the outcome and the instance after the call.  The total handed
  to the progress bar is \<open>self.n_samples // self.batch_size\<close>, computed before the loop.
\<close>

definition get_embeddings ::
  "('e, 'd) library \<Rightarrow> ('e, 'z) FID_scheme \<Rightarrow> pyval list \<Rightarrow> 'e generator \<Rightarrow> 'e transform
     \<Rightarrow> int option \<Rightarrow> cond option \<Rightarrow> int option
     \<Rightarrow> ('e exn + mat \<times> mat) \<times> ('e, 'z) FID_scheme" where
  "get_embeddings lib self dataloader gen gen_transforms target_index condition_indices z_dim =
     (case invert_transforms lib gen_transforms of
        Inl e \<Rightarrow> (Inl e, self)
      | Inr gen_transforms_inv \<Rightarrow>
          if batch_size self = 0 then (Inl ZeroDivisionError, self)
          else
            (case embed_loop lib self dataloader gen gen_transforms gen_transforms_inv
                    target_index condition_indices z_dim of
               (Some e, st) \<Rightarrow> (Inl e, inst st)
             | (None, st) \<Rightarrow>
                 (ebind (cat0 (real_embeddings_list st)) (\<lambda>real_embeddings.
                  ebind (cat0 (fake_embeddings_list st)) (\<lambda>fake_embeddings.
                  Inr (real_embeddings, fake_embeddings))),
                  inst st)))"

text \<open>
  \<open>FID.forward\<close>.  Emptying the CUDA cache returns nothing and touches no Python object;
  it has no counterpart here.
\<close>

definition FID_forward ::
  "('e, 'd) library \<Rightarrow> ('e, 'z) FID_scheme \<Rightarrow> 'd \<Rightarrow> 'e generator \<Rightarrow> 'e transform
     \<Rightarrow> int option \<Rightarrow> cond option \<Rightarrow> int option \<Rightarrow> ('e exn + fl) \<times> ('e, 'z) FID_scheme" where
  "FID_forward lib self dataset gen gen_transforms target_index condition_indices z_dim =
     (case DataLoader lib dataset (batch_size self) of
        Inl e \<Rightarrow> (Inl e, self)
      | Inr dataloader \<Rightarrow>
          (case get_embeddings lib self dataloader gen gen_transforms target_index
                  condition_indices z_dim of
             (r, self') \<Rightarrow>
               (ebind r (\<lambda>(real_embeddings, fake_embeddings).
                  let real_embeddings_mean = mean_dim0 real_embeddings;
                      fake_embeddings_mean = mean_dim0 fake_embeddings
                  in ebind (cov lib real_embeddings) (\<lambda>real_embeddings_cov.
                     ebind (cov lib fake_embeddings) (\<lambda>fake_embeddings_cov.
                     frechet_distance (matrix_sqrt lib) real_embeddings_mean fake_embeddings_mean
                       real_embeddings_cov fake_embeddings_cov))),
                self')))"

section \<open>\<open>utils/metrics/is_.py\<close> and \<open>utils/metrics/is.py\<close>: the two classes \<open>IS\<close>\<close>

record 'e IS = "'e FID" +
  inception_sm :: "'e sequential"

text \<open>
  \<open>IS.__init__\<close>, the same in both files but for the order of the parameters (that of
  \<open>is_.py\<close> here): the constructor of \<open>FID\<close> with \<open>crop_fc=False\<close>, then the softmax.
\<close>

definition IS_init ::
  "('e, 'd) library \<Rightarrow> string \<Rightarrow> int \<Rightarrow> int \<Rightarrow> string \<Rightarrow> 'e exn + 'e IS" where
  "IS_init lib chkpts_root n_samples0 batch_size0 device0 =
     ebind (FID_init lib chkpts_root device0 n_samples0 batch_size0 False) (\<lambda>self.
     Inr \<lparr>inside_colab = inside_colab self, tqdm = tqdm self, inception = inception self,
          device = device self, n_samples = n_samples self, batch_size = batch_size self,
          inception_sm = Sequential (inception self) (Softmax 1)\<rparr>)"

text \<open>The variables of \<open>IS.forward\<close> that its loop reads and writes, with the instance.\<close>

record 's predict_state =
  owner :: 's
  seen_samples :: int
  fake_predictions_list :: "mat list"

definition predict_stop :: "('e, 'z) IS_scheme predict_state \<Rightarrow> bool" where
  "predict_stop st = (seen_samples st \<ge> n_samples (owner st))"

text \<open>
  \<open>len(real_samples if condition_indices is None else real_samples[0])\<close>, line 70 of
  \<open>is_.py\<close> and line 64 of \<open>is.py\<close>.
\<close>

definition cur_batch_size_of :: "cond option \<Rightarrow> pyval \<Rightarrow> 'e exn + nat" where
  "cur_batch_size_of condition_indices real_samples =
     (case condition_indices of
        None \<Rightarrow> pyval_len real_samples
      | Some _ \<Rightarrow> ebind (pyval_index real_samples 0) tensor_len)"

text \<open>The body of the loop of \<open>is_.py\<close>, lines 70 to 88.\<close>

definition predict_body ::
  "('e, 'd) library \<Rightarrow> 'e generator \<Rightarrow> 'e transform \<Rightarrow> 'e transform \<Rightarrow> cond option \<Rightarrow> int option
     \<Rightarrow> ('e, 'z) IS_scheme predict_state \<Rightarrow> pyval \<Rightarrow> 'e exn + ('e, 'z) IS_scheme predict_state" where
  "predict_body lib gen gen_transforms gen_transforms_inv condition_indices z_dim st real_samples =
     ebind (cur_batch_size_of condition_indices real_samples) (\<lambda>cur_batch_size.
     ebind (gen_inputs_of lib (device (owner st)) gen_transforms condition_indices z_dim
              (length (fake_predictions_list st)) cur_batch_size real_samples) (\<lambda>gen_inputs.
     ebind (call_unpacked gen gen_inputs) (\<lambda>fake_output.
     ebind (last_output fake_output) (\<lambda>fake_output.
     ebind (gen_transforms_inv fake_output) (\<lambda>fake_output.
     ebind (InceptionV3Transforms lib fake_output) (\<lambda>y.
     ebind (sequential_forward (inception_sm (owner st)) y) (\<lambda>fake_predictions.
     Inr (st\<lparr>fake_predictions_list := fake_predictions_list st @ [fake_predictions],
             seen_samples := seen_samples st + int cur_batch_size\<rparr>))))))))"


text \<open>
  Lines 94 to 98 of \<open>is_.py\<close>: the score of the accumulated predictions, with tensors.
  \<open>torch.stack\<close> refuses an empty list.
\<close>

definition kl_row :: "vec \<Rightarrow> vec \<Rightarrow> 'e exn + fl" where
  "kl_row p_y p_y_given_xi =
     ebind (broadcast1 fdiv p_y_given_xi p_y) (\<lambda>ratio.
     ebind (broadcast1 fmul p_y_given_xi (map flog ratio)) (\<lambda>terms.
     Inr (fsum terms)))"

definition IS_score :: "mat \<Rightarrow> 'e exn + fl" where
  "IS_score fake_predictions =
     (let p_y = mean_dim0 fake_predictions
      in ebind (sequence (map (kl_row p_y) fake_predictions)) (\<lambda>kls.
         if kls = [] then Inl EmptyListError else Inr (fexp (mean1 kls))))"

text \<open>
  \<open>scipy.special.rel_entr\<close> and \<open>scipy.stats.entropy(pk, qk)\<close>: both arguments are
  normalised to sum 1, the first before and the second after they are broadcast
  together; the relative entropy of a zero against a non-negative value is zero.
\<close>

definition fpos :: "fl \<Rightarrow> bool" where
  "fpos a = (case a of Fin r \<Rightarrow> 0 < r | PInf \<Rightarrow> True | NInf \<Rightarrow> False | NaN \<Rightarrow> False)"

definition fnonneg :: "fl \<Rightarrow> bool" where
  "fnonneg a = (case a of Fin r \<Rightarrow> 0 \<le> r | PInf \<Rightarrow> True | NInf \<Rightarrow> False | NaN \<Rightarrow> False)"

definition rel_entr :: "fl \<Rightarrow> fl \<Rightarrow> fl" where
  "rel_entr x y =
     (if x = NaN \<or> y = NaN then NaN
      else if fpos x \<and> fpos y then fmul x (flog (fdiv x y))
      else if x = Fin 0 \<and> fnonneg y then Fin 0
      else PInf)"

definition entropy :: "vec \<Rightarrow> vec \<Rightarrow> 'e exn + fl" where
  "entropy pk qk =
     (let pk = map (\<lambda>x. fdiv x (fsum pk)) pk
      in ebind (broadcast1 Pair pk qk) (\<lambda>both.
         let pk = map fst both; qk = map snd both;
             qk = map (\<lambda>x. fdiv x (fsum qk)) qk
         in Inr (fsum (map2 rel_entr pk qk))))"

text \<open>Lines 90 to 93 of \<open>is.py\<close>: the score of the accumulated predictions, with arrays.\<close>

definition IS_np_score :: "mat \<Rightarrow> 'e exn + fl" where
  "IS_np_score fake_predictions =
     (let p_y = mean_dim0 fake_predictions
      in ebind (sequence (map (\<lambda>p_y_given_xi. entropy p_y_given_xi p_y) fake_predictions)) (\<lambda>kls.
         Inr (fexp (mean1 kls))))"

text \<open>\<open>IS.forward\<close> of \<open>is_.py\<close>: the outcome and the instance after the call.\<close>

definition IS_forward ::
  "('e, 'd) library \<Rightarrow> ('e, 'z) IS_scheme \<Rightarrow> 'd \<Rightarrow> 'e generator \<Rightarrow> 'e transform
     \<Rightarrow> int option \<Rightarrow> cond option \<Rightarrow> int option \<Rightarrow> ('e exn + fl) \<times> ('e, 'z) IS_scheme" where
  "IS_forward lib self dataset gen gen_transforms target_index condition_indices z_dim =
     (case DataLoader lib dataset (batch_size self) of
        Inl e \<Rightarrow> (Inl e, self)
      | Inr dataloader \<Rightarrow>
          (case invert_transforms lib gen_transforms of
             Inl e \<Rightarrow> (Inl e, self)
           | Inr gen_transforms_inv \<Rightarrow>
               if batch_size self = 0 then (Inl ZeroDivisionError, self)
               else
                 (case for_loop predict_stop
                         (predict_body lib gen gen_transforms gen_transforms_inv
                            condition_indices z_dim)
                         \<lparr>owner = self, seen_samples = 0, fake_predictions_list = []\<rparr>
                         dataloader of
                    (Some e, st) \<Rightarrow> (Inl e, owner st)
                  | (None, st) \<Rightarrow>
                      (ebind (cat0 (fake_predictions_list st)) IS_score, owner st))))"


section \<open>What the operations are to compute\<close>

text \<open>
  A matrix of \<open>r\<close> rows and \<open>c\<close> columns; the product of two \<open>n\<close> by \<open>n\<close> matrices
  and the Frechet distance between two Gaussians, written with indices in an arithmetic
  of tensor elements: the square of the Euclidean norm of the difference of the means
  plus the trace of \<open>x_cov + y_cov - 2 * S\<close>, where \<open>S\<close> is the square root of the
  product of the covariance matrices.
\<close>

definition is_mat :: "nat \<Rightarrow> nat \<Rightarrow> 'a list list \<Rightarrow> bool" where
  "is_mat r c A = (length A = r \<and> (\<forall>row \<in> set A. length row = c))"

definition matprod_in :: "'a arith \<Rightarrow> nat \<Rightarrow> 'a list list \<Rightarrow> 'a list list \<Rightarrow> 'a list list" where
  "matprod_in ar n A B =
     map (\<lambda>i. map (\<lambda>j. t_dot ar (A ! i) (map (\<lambda>k. B ! k ! j) [0..<n])) [0..<n]) [0..<n]"

definition frechet_formula ::
  "'a arith \<Rightarrow> nat \<Rightarrow> 'a list \<Rightarrow> 'a list \<Rightarrow> 'a list list \<Rightarrow> 'a list list \<Rightarrow> 'a list list \<Rightarrow> 'a" where
  "frechet_formula ar n x y A B S =
     t_add ar
       (t_pow2 ar (t_norm ar (map (\<lambda>i. t_sub ar (x ! i) (y ! i)) [0..<n])))
       (t_sum ar (map (\<lambda>i. t_sub ar (t_add ar (A ! i ! i) (B ! i ! i)) (t_twice ar (S ! i ! i)))
                    [0..<n]))"

text \<open>
  The Kullback-Leibler divergence of a distribution \<open>p\<close> from \<open>q\<close> over the same classes,
  with a term of zero for a class of zero probability; the marginal distribution of a
  matrix of per-sample rows, which is the arithmetic mean of the rows; and the Inception
  Score: the exponential of the mean, over the samples, of the divergence of the sample's
  row from the marginal.
\<close>

definition kl_term :: "real \<Rightarrow> real \<Rightarrow> real" where
  "kl_term a b = (if a = 0 then 0 else a * ln (a / b))"

definition kl_div :: "real list \<Rightarrow> real list \<Rightarrow> real" where
  "kl_div p q = sum_list (map2 kl_term p q)"

definition marginal :: "real list list \<Rightarrow> real list" where
  "marginal P = map (\<lambda>j. sum_list (column P j) / real (length P)) [0..<ncols P]"

definition IS_spec :: "real list list \<Rightarrow> real" where
  "IS_spec P = exp (sum_list (map (\<lambda>p. kl_div p (marginal P)) P) / real (length P))"

text \<open>
  The size of a tensor along its first dimension, and the number of samples of a batch:
  the length of the target output that line 111 takes from it (zero where there is
  none).  \<open>samples_upto\<close> counts the samples of the first \<open>k\<close> batches of a loader.
  A library and an instance embed one row for each sample when the Inception transforms
  followed by the network return as many rows as their input has samples.
\<close>

definition first_dim :: "tensor \<Rightarrow> nat option" where
  "first_dim t = (case t of Scalar _ \<Rightarrow> None | Node ts \<Rightarrow> Some (length ts))"

definition batch_len :: "int option \<Rightarrow> pyval \<Rightarrow> nat" where
  "batch_len target_index real_samples =
     (case (target_of target_index real_samples :: unit exn + tensor) of
        Inl _ \<Rightarrow> 0
      | Inr t \<Rightarrow> (case first_dim t of None \<Rightarrow> 0 | Some n \<Rightarrow> n))"

definition samples_upto :: "int option \<Rightarrow> pyval list \<Rightarrow> nat \<Rightarrow> int" where
  "samples_upto target_index dataloader k =
     int (sum_list (map (batch_len target_index) (take k dataloader)))"

definition embeds_rows :: "('e, 'd) library \<Rightarrow> ('e, 'z) FID_scheme \<Rightarrow> bool" where
  "embeds_rows lib self =
     (\<forall>t m. ebind (InceptionV3Transforms lib t) (inception_forward (inception self)) = Inr m
            \<longrightarrow> first_dim t = Some (length m))"

text \<open>
  A small library, network, instance, generator and batch on which the methods can be
  run: the network returns one row \<open>[0.0]\<close> for each sample, the transforms change
  nothing, the covariance of its constant embeddings is zero, the generator returns its
  first argument, and the batch has two components of two samples each.
\<close>

definition demo_inception :: "unit inception_v3" where
  "demo_inception =
     \<lparr>features = (\<lambda>t. case t of Scalar _ \<Rightarrow> Inl ShapeError
                              | Node ts \<Rightarrow> Inr (map (\<lambda>_. [Fin 0]) ts)),
      fc = Identity\<rparr>"

definition demo_library :: "(unit, pyval list) library" where
  "demo_library =
     \<lparr>InceptionV3Transforms = Inr,
      invert_transforms = (\<lambda>_. Inr Inr),
      randn = (\<lambda>draw n z. Inr (Node (replicate n (Node (replicate (nat z) (Scalar (Fin 0))))))),
      to_fails = (\<lambda>_ _. None),
      cov = (\<lambda>_. Inr [[Fin 0]]),
      matrix_sqrt = Inr,
      DataLoader = (\<lambda>dataset _. Inr dataset),
      load_inception = (\<lambda>_ _. Inr (demo_inception\<lparr>fc := Linear Inr\<rparr>)),
      in_colab = False\<rparr>"

definition demo_FID :: "unit FID" where
  "demo_FID =
     \<lparr>inside_colab = False, tqdm = Tqdm, inception = demo_inception, device = ''cpu'',
      n_samples = 2, batch_size = 2\<rparr>"

definition first_arg_gen :: "unit generator" where
  "first_arg_gen args = (case args of [] \<Rightarrow> Inl TypeError | a # _ \<Rightarrow> Inr (PTensor a))"

definition pair_batch :: pyval where
  "pair_batch = PSeq [Node [Scalar (Fin 0), Scalar (Fin 0)], Node [Scalar (Fin 1), Scalar (Fin 1)]]"

text \<open>
  What is expected of the callables and of the batches for the embeddings of a batch to
  have one row for each of its samples: a transform keeps the size of the first
  dimension; a generator whose inputs all have \<open>n\<close> samples returns \<open>n\<close> samples; and
  the components of a batch all have the same number of samples.  \<open>single_batch\<close> is a
  batch that is one tensor of two samples.
\<close>

definition keeps_first_dim :: "'e transform \<Rightarrow> bool" where
  "keeps_first_dim f = (\<forall>t t'. f t = Inr t' \<longrightarrow> first_dim t' = first_dim t)"

definition batch_preserving :: "'e generator \<Rightarrow> bool" where
  "batch_preserving gen =
     (\<forall>args out t n. gen args = Inr out \<longrightarrow> last_output out = (Inr t :: 'e exn + tensor)
        \<longrightarrow> args \<noteq> [] \<longrightarrow> (\<forall>a \<in> set args. first_dim a = Some n) \<longrightarrow> first_dim t = Some n)"

definition uniform_batch :: "pyval \<Rightarrow> bool" where
  "uniform_batch b = (\<exists>ts n. b = PSeq ts \<and> (\<forall>t \<in> set ts. first_dim t = Some n))"

definition single_batch :: pyval where
  "single_batch = PTensor (Node [Scalar (Fin 0), Scalar (Fin 0)])"

text \<open>
  The score as a function of the four statistics alone: the two means and the outcomes
  of the two covariance computations.
\<close>

definition score_of_statistics ::
  "('e, 'd) library \<Rightarrow> vec \<Rightarrow> vec \<Rightarrow> 'e exn + mat \<Rightarrow> 'e exn + mat \<Rightarrow> 'e exn + fl" where
  "score_of_statistics lib real_mean fake_mean real_cov fake_cov =
     ebind real_cov (\<lambda>rc. ebind fake_cov (\<lambda>fc.
       frechet_distance (matrix_sqrt lib) real_mean fake_mean rc fc))"

text \<open>
  The attributes that an instance has from \<open>FID\<close>, and an instance of \<open>IS\<close> on the small
  library.
\<close>

definition FID_of :: "('e, 'z) FID_scheme \<Rightarrow> 'e FID" where
  "FID_of self =
     \<lparr>inside_colab = inside_colab self, tqdm = tqdm self, inception = inception self,
      device = device self, n_samples = n_samples self, batch_size = batch_size self\<rparr>"

definition demo_IS :: "unit IS" where
  "demo_IS =
     \<lparr>inside_colab = False, tqdm = Tqdm, inception = demo_inception\<lparr>fc := Linear Inr\<rparr>,
      device = ''cpu'', n_samples = 2, batch_size = 2,
      inception_sm = Sequential (demo_inception\<lparr>fc := Linear Inr\<rparr>) (Softmax 1)\<rparr>"

text \<open>
  A network whose outputs are \<open>[0, -inf]\<close> for the samples at even positions of a batch
  and \<open>[-inf, 0]\<close> for the others, and an instance of \<open>IS\<close> with this network.
\<close>

definition onehot_inception :: "unit inception_v3" where
  "onehot_inception =
     \<lparr>features = (\<lambda>t. case t of Scalar _ \<Rightarrow> Inl ShapeError
                              | Node ts \<Rightarrow> Inr (map (\<lambda>i. if even i then [Fin 0, NInf]
                                                             else [NInf, Fin 0])
                                                    [0..<length ts])),
      fc = Linear Inr\<rparr>"

definition onehot_IS :: "unit IS" where
  "onehot_IS =
     \<lparr>inside_colab = False, tqdm = Tqdm, inception = onehot_inception,
      device = ''cpu'', n_samples = 2, batch_size = 2,
      inception_sm = Sequential onehot_inception (Softmax 1)\<rparr>"

text \<open>
  An arithmetic in which a square of \<open>2 ^ 128\<close> or more overflows to \<open>inf\<close>, as it does
  in 32-bit floats, whose largest finite value is below \<open>2 ^ 128\<close>.
\<close>

definition overflowing_pow2 :: "fl \<Rightarrow> fl" where
  "overflowing_pow2 x = (case fsq x of Fin r \<Rightarrow> if 2 ^ 128 \<le> r then PInf else Fin r | y \<Rightarrow> y)"

definition overflowing_arith :: "fl arith" where
  "overflowing_arith = exact_arith\<lparr>t_pow2 := overflowing_pow2\<rparr>"

section \<open>Basic facts\<close>

lemma ebind_Inr [simp]: "ebind (Inr v) f = f v"
  by (simp add: ebind_def)

lemma ebind_Inl [simp]: "ebind (Inl e) f = Inl e"
  by (simp add: ebind_def)

lemma ebind_eq_Inr: "ebind m f = Inr y \<longleftrightarrow> (\<exists>v. m = Inr v \<and> f v = Inr y)"
  by (cases m) simp_all

lemma ebind_eq_Inl: "ebind m f = Inl e \<longleftrightarrow> m = Inl e \<or> (\<exists>v. m = Inr v \<and> f v = Inl e)"
  by (cases m) simp_all

lemma upt2: "[0..<2] = [0, Suc 0]"
  by (simp add: upt_rec numeral_2_eq_2)

lemma sequence_map_Inr: "sequence (map (\<lambda>i. Inr (g i)) js) = Inr (map g js)"
  by (induction js) simp_all

lemma map2_nth_upt:
  "length xs = n \<Longrightarrow> length ys = n \<Longrightarrow> map2 f xs ys = map (\<lambda>i. f (xs ! i) (ys ! i)) [0..<n]"
  by (rule nth_equalityI) auto

lemma broadcast1_same:
  "length xs = n \<Longrightarrow> length ys = n \<Longrightarrow>
     broadcast1 f xs ys = Inr (map (\<lambda>i. f (xs ! i) (ys ! i)) [0..<n])"
  by (simp add: broadcast1_def map2_nth_upt)

lemma broadcast2_same:
  assumes "is_mat r c A" "is_mat r c B"
  shows "broadcast2 f A B = Inr (map (\<lambda>i. map (\<lambda>j. f (A ! i ! j) (B ! i ! j)) [0..<c]) [0..<r])"
proof -
  have len: "length A = r" "length B = r" using assms by (auto simp: is_mat_def)
  have rows: "\<And>i. i < r \<Longrightarrow> length (A ! i) = c \<and> length (B ! i) = c"
    using assms by (auto simp: is_mat_def)
  have z: "map2 (broadcast1 f) A B
        = map (\<lambda>i. Inr (map (\<lambda>j. f (A ! i ! j) (B ! i ! j)) [0..<c])) [0..<r]"
    using len rows by (simp add: map2_nth_upt broadcast1_same)
  show ?thesis using len by (simp add: broadcast2_def z sequence_map_Inr)
qed

lemma is_mat_ncols: "is_mat n n A \<Longrightarrow> ncols A = n"
  by (cases A) (auto simp: is_mat_def ncols_def)

lemma matmul_in_square:
  assumes "is_mat n n A" "is_mat n n B"
  shows "matmul_in ar A B = Inr (matprod_in ar n A B)"
proof -
  have len: "length A = n" "length B = n" using assms by (auto simp: is_mat_def)
  have nc: "ncols B = n" using assms(2) by (rule is_mat_ncols)
  have ok: "(\<forall>r \<in> set A. length r = length B) \<and> (\<forall>r \<in> set B. length r = ncols B)"
    using assms nc by (auto simp: is_mat_def)
  have col: "column B j = map (\<lambda>k. B ! k ! j) [0..<n]" for j
    unfolding column_def using len by (intro nth_equalityI) auto
  have "map (\<lambda>r. map (\<lambda>j. t_dot ar r (column B j)) [0..<n]) A = matprod_in ar n A B"
    unfolding matprod_in_def using len by (intro nth_equalityI) (auto simp: col)
  then show ?thesis using ok by (simp add: matmul_in_def nc)
qed

lemma trace_in_square:
  "is_mat n n A \<Longrightarrow> trace_in ar A = t_sum ar (map (\<lambda>i. A ! i ! i) [0..<n])"
  by (simp add: trace_in_def is_mat_ncols) (simp add: is_mat_def)

section \<open>The Frechet distance\<close>

text \<open>
  The function written in the exact arithmetic is the function over any arithmetic,
  taken at the exact one.
\<close>

lemma frechet_distance_exact:
  "frechet_distance_in exact_arith msqrt x_mean y_mean x_cov y_cov
   = frechet_distance msqrt x_mean y_mean x_cov y_cov"
proof -
  have m: "matmul_in exact_arith A B = (matmul A B :: 'a exn + mat)" for A B
    by (simp add: matmul_in_def matmul_def exact_arith_def)
  have t: "trace_in exact_arith A = trace A" for A
    by (simp add: trace_in_def trace_def exact_arith_def)
  show ?thesis
    unfolding frechet_distance_in_def frechet_distance_def m t
    by (simp add: exact_arith_def scale_def)
qed

text \<open>
  Claim C1.  For mean vectors \<open>x_mean\<close>, \<open>y_mean\<close> of the same dimension \<open>n\<close> and \<open>n\<close> by
  \<open>n\<close> covariance matrices \<open>x_cov\<close>, \<open>y_cov\<close>, \<open>_frechet_distance\<close> raises nothing and
  returns the square of the Euclidean norm of \<open>x_mean - y_mean\<close> plus the trace of
  \<open>x_cov + y_cov - 2 * S\<close>, where \<open>S\<close> is the \<open>n\<close> by \<open>n\<close> matrix that \<open>matrix_sqrt\<close>
  returns for the product \<open>x_cov @ y_cov\<close>.  This holds in every arithmetic of tensor
  elements, that of 32-bit floats included: the norm, the square, the sums and the
  differences are those of the tensor library, applied to the elements that the formula
  names.
\<close>

theorem frechet_distance_formula:
  assumes "length x_mean = n" "length y_mean = n"
    and "is_mat n n x_cov" "is_mat n n y_cov"
    and "msqrt (matprod_in ar n x_cov y_cov) = Inr S" "is_mat n n S"
  shows "frechet_distance_in ar msqrt x_mean y_mean x_cov y_cov
           = Inr (frechet_formula ar n x_mean y_mean x_cov y_cov S)"
proof -
  let ?d = "map (\<lambda>i. t_sub ar (x_mean ! i) (y_mean ! i)) [0..<n]"
  let ?s = "map (\<lambda>i. map (\<lambda>j. t_add ar (x_cov ! i ! j) (y_cov ! i ! j)) [0..<n]) [0..<n]"
  let ?r = "map (map (t_twice ar)) S"
  let ?t = "map (\<lambda>i. map (\<lambda>j. t_sub ar (?s ! i ! j) (?r ! i ! j)) [0..<n]) [0..<n]"
  have d: "broadcast1 (t_sub ar) x_mean y_mean = (Inr ?d :: 'b exn + 'a list)"
    using assms(1,2) by (rule broadcast1_same)
  have s: "broadcast2 (t_add ar) x_cov y_cov = (Inr ?s :: 'b exn + 'a list list)"
    using assms(3,4) by (rule broadcast2_same)
  have p: "matmul_in ar x_cov y_cov = (Inr (matprod_in ar n x_cov y_cov) :: 'b exn + 'a list list)"
    using assms(3,4) by (rule matmul_in_square)
  have ms: "is_mat n n ?s" by (simp add: is_mat_def)
  have m2: "is_mat n n ?r" using assms(6) by (auto simp: is_mat_def)
  have t: "broadcast2 (t_sub ar) ?s ?r = (Inr ?t :: 'b exn + 'a list list)"
    using ms m2 by (rule broadcast2_same)
  have mt: "is_mat n n ?t" by (simp add: is_mat_def)
  have sc: "i < n \<Longrightarrow> ?r ! i ! i = t_twice ar (S ! i ! i)" for i
    using assms(6) by (simp add: is_mat_def)
  have tr: "trace_in ar ?t
      = t_sum ar (map (\<lambda>i. t_sub ar (t_add ar (x_cov ! i ! i) (y_cov ! i ! i))
                                      (t_twice ar (S ! i ! i))) [0..<n])"
    unfolding trace_in_square[OF mt] by (rule arg_cong[where f = "t_sum ar"]) (simp add: sc)
  show ?thesis
    by (simp add: frechet_distance_in_def d s p assms(5) t tr frechet_formula_def del: map_map)
qed

theorem frechet_distance_formula_witness:
  "length [Fin 1, Fin 2] = 2 \<and> length [Fin 0, Fin 0] = 2
   \<and> is_mat 2 2 [[Fin 1, Fin 0], [Fin 0, Fin 1]]
   \<and> (Inr (matprod_in exact_arith 2 [[Fin 1, Fin 0], [Fin 0, Fin 1]]
              [[Fin 1, Fin 0], [Fin 0, Fin 1]])
        :: unit exn + mat) = Inr [[Fin 1, Fin 0], [Fin 0, Fin 1]]
   \<and> frechet_distance_in exact_arith Inr [Fin 1, Fin 2] [Fin 0, Fin 0]
        [[Fin 1, Fin 0], [Fin 0, Fin 1]] [[Fin 1, Fin 0], [Fin 0, Fin 1]]
      = (Inr (Fin 5) :: unit exn + fl)"
proof -
  have m: "is_mat 2 2 [[Fin 1, Fin 0], [Fin 0, Fin 1]]" by (simp add: is_mat_def)
  have p: "matprod_in exact_arith 2 [[Fin 1, Fin 0], [Fin 0, Fin 1]] [[Fin 1, Fin 0], [Fin 0, Fin 1]]
           = [[Fin 1, Fin 0], [Fin 0, Fin 1]]"
    by (simp add: matprod_in_def exact_arith_def upt2 fsum_def)
  have s: "(Inr (matprod_in exact_arith 2 [[Fin 1, Fin 0], [Fin 0, Fin 1]]
                   [[Fin 1, Fin 0], [Fin 0, Fin 1]])
             :: unit exn + mat) = Inr [[Fin 1, Fin 0], [Fin 0, Fin 1]]"
    by (simp add: p)
  have v: "frechet_formula exact_arith 2 [Fin 1, Fin 2] [Fin 0, Fin 0]
             [[Fin 1, Fin 0], [Fin 0, Fin 1]] [[Fin 1, Fin 0], [Fin 0, Fin 1]]
             [[Fin 1, Fin 0], [Fin 0, Fin 1]] = Fin 5"
    by (simp add: frechet_formula_def exact_arith_def upt2 fsum_def fsq_def fsub_def norm2_def)
  have "frechet_distance_in exact_arith Inr [Fin 1, Fin 2] [Fin 0, Fin 0]
          [[Fin 1, Fin 0], [Fin 0, Fin 1]] [[Fin 1, Fin 0], [Fin 0, Fin 1]]
        = (Inr (Fin 5) :: unit exn + fl)"
    using frechet_distance_formula [where n = 2 and msqrt = Inr and ar = exact_arith,
        OF _ _ m m s m, of "[Fin 1, Fin 2]" "[Fin 0, Fin 0]"]
    by (simp add: v)
  then show ?thesis using m s by simp
qed

text \<open>
  The statement above holds in every arithmetic, so also where the arithmetic overflows: with
  a first mean of \<open>2 ^ 64\<close> and a square that overflows from \<open>2 ^ 128\<close> on, the function
  returns \<open>inf\<close>, which is then also the value of the formula in that arithmetic.
\<close>

lemma overflowing_pow2_big: "overflowing_pow2 (Fin (2 ^ 64)) = PInf"
proof -
  have e: "(2 :: real) ^ 64 * 2 ^ 64 = 2 ^ 128" by (simp add: power_add [symmetric])
  show ?thesis unfolding overflowing_pow2_def fsq_def by (simp only: fmul.simps e) simp
qed

lemma norm2_single: "0 \<le> r \<Longrightarrow> norm2 [Fin r] = Fin r"
  by (simp add: norm2_def fsum_def fsq_def)

lemma frechet_distance_overflow:
  "frechet_distance_in overflowing_arith Inr [Fin (2 ^ 64)] [Fin 0] [[Fin 1]] [[Fin 1]]
   = (Inr PInf :: unit exn + fl)"
proof -
  have n: "norm2 [Fin (2 ^ 64)] = Fin (2 ^ 64)" by (rule norm2_single) simp
  have d: "(broadcast1 fsub [Fin (2 ^ 64)] [Fin 0] :: unit exn + vec) = Inr [Fin (2 ^ 64)]"
    by (simp add: broadcast1_def fsub_def)
  have s: "(broadcast2 fadd [[Fin 1]] [[Fin 1]] :: unit exn + mat) = Inr [[Fin 2]]"
    by (simp add: broadcast2_def broadcast1_def)
  have p: "(matmul_in overflowing_arith [[Fin 1]] [[Fin 1]] :: unit exn + mat) = Inr [[Fin 1]]"
    by (simp add: matmul_in_def overflowing_arith_def exact_arith_def fsum_def ncols_def column_def)
  have t: "(broadcast2 fsub [[Fin 2]] [[Fin 2]] :: unit exn + mat) = Inr [[Fin 0]]"
    by (simp add: broadcast2_def broadcast1_def fsub_def)
  have tr: "trace_in overflowing_arith [[Fin 0]] = Fin 0"
    by (simp add: trace_in_def overflowing_arith_def exact_arith_def fsum_def ncols_def)
  have a: "t_sub overflowing_arith = fsub" "t_add overflowing_arith = fadd"
    "t_twice overflowing_arith = fmul (Fin 2)" "t_pow2 overflowing_arith = overflowing_pow2"
    "t_norm overflowing_arith = norm2"
    by (simp_all add: overflowing_arith_def exact_arith_def)
  show ?thesis
    unfolding frechet_distance_in_def a
    by (simp only: d s p t n overflowing_pow2_big ebind_def sum.case Let_def list.map fmul.simps tr
          fadd.simps) (simp add: t tr)
qed

section \<open>The contracting block\<close>

text \<open>
  Claim C9, as the code has it.  A block constructed with \<open>c_out\<close> equal to \<open>None\<close>, or
  passed as 0, has a convolution of \<open>2 * c_in\<close> output channels, since the constructor
  tests \<open>not c_out\<close>; and a block whose \<open>c_in\<close> is not zero never has a convolution of
  zero output channels.
\<close>

theorem ContractingBlock_out_channels:
  assumes "ContractingBlock_init c_in use_norm kernel_size activation c_out stride padding
             padding_mode norm_type = Inr block"
  shows "(c_out = None \<or> c_out = Some 0 \<longrightarrow> out_channels block = Some (2 * c_in))
         \<and> (c_in \<noteq> 0 \<longrightarrow> out_channels block \<noteq> Some 0)"
  using assms
  by (cases c_out)
     (auto simp: ContractingBlock_init_def py_not_def Let_def ebind_eq_Inr split: if_splits)

theorem ContractingBlock_out_channels_witness:
  "(ContractingBlock_init 3 True 3 ''relu'' (Some 0) 2 1 ''reflect'' ''instance''
      :: unit exn + layer list)
     = Inr [Conv2d 3 6 3 1 2 ''reflect'', InstanceNorm2d 6, ReLU]
   \<and> out_channels [Conv2d 3 6 3 1 2 ''reflect'', InstanceNorm2d 6, ReLU] = Some (2 * 3)
   \<and> out_channels [Conv2d 3 6 3 1 2 ''reflect'', InstanceNorm2d 6, ReLU] \<noteq> Some 0"
proof -
  have b: "(ContractingBlock_init 3 True 3 ''relu'' (Some 0) 2 1 ''reflect'' ''instance''
              :: unit exn + layer list)
           = Inr [Conv2d 3 6 3 1 2 ''reflect'', InstanceNorm2d 6, ReLU]"
    by (simp add: ContractingBlock_init_def py_not_def switcher_def)
  show ?thesis using ContractingBlock_out_channels [OF b] b by simp
qed

text \<open>
  The claim as it is written fails for a block of no input channels: doubling them gives
  a convolution of zero output channels.
\<close>

theorem ContractingBlock_zero_channels:
  "(ContractingBlock_init 0 True 3 ''relu'' None 2 1 ''reflect'' ''instance''
      :: unit exn + layer list)
     = Inr [Conv2d 0 0 3 1 2 ''reflect'', InstanceNorm2d 0, ReLU]
   \<and> out_channels [Conv2d 0 0 3 1 2 ''reflect'', InstanceNorm2d 0, ReLU] = Some 0"
  by (simp add: ContractingBlock_init_def py_not_def switcher_def)

section \<open>The Inception Score\<close>

lemma fsum_Fin: "fsum (map Fin xs) = Fin (sum_list xs)"
  by (induction xs) (simp_all add: fsum_def)

lemma mean1_Fin: "xs \<noteq> [] \<Longrightarrow> mean1 (map Fin xs) = Fin (sum_list xs / real (length xs))"
  by (simp add: mean1_def fsum_Fin)

lemma ncols_Fin: "ncols (map (map Fin) P) = ncols P"
  by (cases P) (simp_all add: ncols_def)

lemma is_mat_ncols_pos: "is_mat N k P \<Longrightarrow> 0 < N \<Longrightarrow> ncols P = k"
  by (cases P) (auto simp: is_mat_def ncols_def)

lemma column_Fin:
  "is_mat N k P \<Longrightarrow> j < k \<Longrightarrow> column (map (map Fin) P) j = map Fin (column P j)"
  by (auto simp: column_def is_mat_def)

lemma mean_dim0_Fin:
  assumes "is_mat N k P" "0 < N"
  shows "mean_dim0 (map (map Fin) P) = map Fin (marginal P)"
proof -
  have nc: "ncols P = k" using assms by (rule is_mat_ncols_pos)
  have ne: "P \<noteq> []" using assms by (auto simp: is_mat_def)
  have "mean1 (column (map (map Fin) P) j) = Fin (sum_list (column P j) / real (length P))"
    if "j < k" for j
  proof -
    have c: "column P j \<noteq> []" "length (column P j) = length P"
      using ne by (simp_all add: column_def)
    show ?thesis
      unfolding column_Fin[OF assms(1) that] using mean1_Fin[OF c(1)] by (simp add: c(2))
  qed
  then show ?thesis
    by (simp add: mean_dim0_def marginal_def ncols_Fin nc)
qed

text \<open>
  Claim C3.  The two computations do not agree on a row with a zero: \<open>is_.py\<close>
  multiplies the zero by the logarithm of zero, which is \<open>nan\<close>, and returns \<open>nan\<close>,
  where \<open>is.py\<close> counts zero for that class, as the divergence does, and returns 2.
  The rows are probability distributions.
\<close>

theorem IS_scores_differ_at_zero:
  "sum_list [1, 0 :: real] = 1 \<and> sum_list [0, 1 :: real] = 1
   \<and> (IS_score [[Fin 1, Fin 0], [Fin 0, Fin 1]] :: unit exn + fl) = Inr NaN
   \<and> (IS_np_score [[Fin 1, Fin 0], [Fin 0, Fin 1]] :: unit exn + fl) = Inr (Fin 2)"
proof -
  have py: "mean_dim0 [[Fin 1, Fin 0], [Fin 0, Fin 1]] = [Fin (1 / 2), Fin (1 / 2)]"
    by (simp add: mean_dim0_def ncols_def upt2 column_def mean1_def fsum_def)
  have t: "(IS_score [[Fin 1, Fin 0], [Fin 0, Fin 1]] :: unit exn + fl) = Inr NaN"
    by (simp add: IS_score_def py kl_row_def broadcast1_def fsum_def mean1_def)
  have e1: "(entropy [Fin 1, Fin 0] [Fin (1 / 2), Fin (1 / 2)] :: unit exn + fl) = Inr (Fin (ln 2))"
    by (simp add: entropy_def broadcast1_def fsum_def rel_entr_def fpos_def fnonneg_def)
  have e2: "(entropy [Fin 0, Fin 1] [Fin (1 / 2), Fin (1 / 2)] :: unit exn + fl) = Inr (Fin (ln 2))"
    by (simp add: entropy_def broadcast1_def fsum_def rel_entr_def fpos_def fnonneg_def)
  have n: "(IS_np_score [[Fin 1, Fin 0], [Fin 0, Fin 1]] :: unit exn + fl) = Inr (Fin 2)"
    by (simp add: IS_np_score_def py e1 e2 mean1_def fsum_def)
  show ?thesis using t n by simp
qed

text \<open>
  Claim C2.  The same defect in a whole run of \<open>IS.forward\<close> of \<open>is_.py\<close>.  The network
  returns \<open>[0, -inf]\<close> and \<open>[-inf, 0]\<close> for the two samples of the batch (32-bit floats
  give the same rows for finite outputs some hundred apart); \<open>inception_sm\<close> makes the
  rows \<open>[1, 0]\<close> and \<open>[0, 1]\<close> of them, which are probability distributions with the
  marginal \<open>[1/2, 1/2]\<close>; the exponential of the mean divergence is 2, and the method
  returns \<open>nan\<close>.
\<close>

theorem IS_forward_nan_at_zero_probability:
  "sequential_forward (inception_sm onehot_IS) (Node [Scalar (Fin 1), Scalar (Fin 1)])
     = Inr [[Fin 1, Fin 0], [Fin 0, Fin 1]]
   \<and> sum_list [1, 0 :: real] = 1 \<and> sum_list [0, 1 :: real] = 1
   \<and> marginal [[1, 0], [0, 1]] = [1 / 2, 1 / 2]
   \<and> IS_spec [[1, 0], [0, 1]] = 2
   \<and> IS_forward demo_library onehot_IS [pair_batch] first_arg_gen Inr None
         (Some (CTuple [1])) None = (Inr NaN, onehot_IS)"
proof -
  have ev: "even (0 :: nat)" "\<not> even (Suc 0)" by simp_all
  have r0: "softmax_row [Fin 0, NInf] = [Fin 1, Fin 0]"
    by (simp add: softmax_row_def row_max_def fmax2_def fsub_def fsum_def)
  have r1: "softmax_row [NInf, Fin 0] = [Fin 0, Fin 1]"
    by (simp add: softmax_row_def row_max_def fmax2_def fsub_def fsum_def)
  have sf: "sequential_forward (inception_sm onehot_IS) (Node [Scalar (Fin 1), Scalar (Fin 1)])
     = Inr [[Fin 1, Fin 0], [Fin 0, Fin 1]]"
    by (simp add: onehot_IS_def onehot_inception_def sequential_forward_def inception_forward_def
          fc_forward_def softmax_forward_def upt2 r0 r1)
  have mg: "marginal [[1, 0], [0, 1]] = [1 / 2, 1 / 2]"
    by (simp add: marginal_def ncols_def upt2 column_def)
  have sp: "IS_spec [[1, 0], [0, 1]] = 2"
    by (simp add: IS_spec_def mg kl_div_def kl_term_def)
  have py: "mean_dim0 [[Fin 1, Fin 0], [Fin 0, Fin 1]] = [Fin (1 / 2), Fin (1 / 2)]"
    by (simp add: mean_dim0_def ncols_def upt2 column_def mean1_def fsum_def)
  have sc: "(IS_score [[Fin 1, Fin 0], [Fin 0, Fin 1]] :: unit exn + fl) = Inr NaN"
    by (simp add: IS_score_def py kl_row_def broadcast1_def fsum_def mean1_def)
  have inv: "invert_transforms demo_library Inr = Inr Inr" by (simp add: demo_library_def)
  have tf: "InceptionV3Transforms demo_library = Inr" by (simp add: demo_library_def)
  have bs: "batch_size onehot_IS \<noteq> 0" "batch_size onehot_IS = 2" "n_samples onehot_IS = 2"
    "device onehot_IS = ''cpu''"
    by (simp_all add: onehot_IS_def)
  have dl: "DataLoader demo_library [pair_batch] 2 = Inr [pair_batch]"
    by (simp add: demo_library_def)
  have gi: "gen_inputs_of demo_library ''cpu'' Inr (Some (CTuple [1])) None 0 2 pair_batch
            = Inr (PSeq [Node [Scalar (Fin 1), Scalar (Fin 1)]])"
    by (simp add: gen_inputs_of_def pyval_index_def py_index_def pair_batch_def to_device_def
          demo_library_def)
  have cb: "(cur_batch_size_of (Some (CTuple [1])) pair_batch :: unit exn + nat) = Inr 2"
    by (simp add: cur_batch_size_of_def pyval_index_def py_index_def pair_batch_def tensor_len_def)
  have body: "predict_body demo_library first_arg_gen Inr Inr (Some (CTuple [1])) None
                \<lparr>owner = onehot_IS, seen_samples = 0, fake_predictions_list = []\<rparr> pair_batch
              = Inr \<lparr>owner = onehot_IS, seen_samples = 2,
                      fake_predictions_list = [[[Fin 1, Fin 0], [Fin 0, Fin 1]]]\<rparr>"
    by (simp add: predict_body_def cb bs gi call_unpacked_def first_arg_gen_def last_output_def
          tf sf)
  have loop: "for_loop predict_stop
                (predict_body demo_library first_arg_gen Inr Inr (Some (CTuple [1])) None)
                \<lparr>owner = onehot_IS, seen_samples = 0, fake_predictions_list = []\<rparr> [pair_batch]
              = (None, \<lparr>owner = onehot_IS, seen_samples = 2,
                          fake_predictions_list = [[[Fin 1, Fin 0], [Fin 0, Fin 1]]]\<rparr>)"
    by (simp add: predict_stop_def bs body)
  have ct: "(cat0 [[[Fin 1, Fin 0], [Fin 0, Fin 1]]] :: unit exn + mat)
            = Inr [[Fin 1, Fin 0], [Fin 0, Fin 1]]"
    by (simp add: cat0_def ncols_def)
  have run: "IS_forward demo_library onehot_IS [pair_batch] first_arg_gen Inr None
         (Some (CTuple [1])) None = (Inr NaN, onehot_IS)"
    by (simp add: IS_forward_def bs dl inv loop ct sc del: for_loop.simps)
  show ?thesis using sf mg sp run by simp
qed

section \<open>The loop of \<open>get_embeddings\<close>\<close>

lemma tensor_len_first_dim: "tensor_len t = Inr n \<longleftrightarrow> first_dim t = Some n"
  by (cases t) (auto simp: tensor_len_def first_dim_def)

lemma py_index_any: "py_index xs i = (Inr v :: 'e exn + 'a) \<Longrightarrow> py_index xs i = (Inr v :: 'f exn + 'a)"
  by (auto simp: py_index_def split: if_splits)

lemma target_of_any:
  "target_of ti b = (Inr t :: 'e exn + tensor) \<Longrightarrow> target_of ti b = (Inr t :: 'f exn + tensor)"
  by (auto simp: target_of_def pyval_index_def tensor_index_def
           split: option.splits pyval.splits tensor.splits intro: py_index_any)

lemma to_device_Inr: "to_device lib dev t = Inr t' \<Longrightarrow> t' = t"
  by (auto simp: to_device_def split: option.splits)

lemma embed_batch_len:
  assumes "embed_batch lib self gen gt gti ti ci z d b = Inr (r, f, n)"
  shows "n = batch_len ti b"
proof -
  from assms obtain t0 t1 where
    t0: "target_of ti b = (Inr t0 :: 'a exn + tensor)" and
    t1: "to_device lib (device self) t0 = Inr t1" and
    n: "tensor_len t1 = (Inr n :: 'a exn + nat)"
    unfolding embed_batch_def by (auto simp: ebind_eq_Inr)
  have "t1 = t0" using t1 by (rule to_device_Inr)
  then have "first_dim t0 = Some n" using n by (simp add: tensor_len_first_dim)
  then show ?thesis using target_of_any[OF t0, where ?'f = unit] by (simp add: batch_len_def)
qed

lemma embed_batch_rows:
  assumes "embed_batch lib self gen gt gti ti ci z d b = Inr (r, f, n)" "embeds_rows lib self"
  shows "length r = n"
proof -
  from assms(1) obtain t0 t1 x where
    t1: "to_device lib (device self) t0 = Inr t1" and
    x: "InceptionV3Transforms lib t1 = Inr x" and
    r: "inception_forward (inception self) x = Inr r" and
    n: "tensor_len t1 = (Inr n :: 'a exn + nat)"
    unfolding embed_batch_def by (auto simp: ebind_eq_Inr)
  have "ebind (InceptionV3Transforms lib t1) (inception_forward (inception self)) = Inr r"
    using x r by simp
  then have "first_dim t1 = Some (length r)" using assms(2) by (simp add: embeds_rows_def)
  then show ?thesis using n by (simp add: tensor_len_first_dim)
qed

lemma embed_body_Inr:
  assumes "embed_body lib gen gt gti ti ci z st b = Inr st'"
  shows "\<exists>r f. embed_batch lib (inst st) gen gt gti ti ci z (length (real_embeddings_list st)) b
                 = Inr (r, f, batch_len ti b)
              \<and> st' = st\<lparr>real_embeddings_list := real_embeddings_list st @ [r],
                         fake_embeddings_list := fake_embeddings_list st @ [f],
                         cur_samples := cur_samples st + int (batch_len ti b)\<rparr>"
proof -
  from assms obtain r f n where
    e: "embed_batch lib (inst st) gen gt gti ti ci z (length (real_embeddings_list st)) b = Inr (r, f, n)"
    and s: "st' = st\<lparr>real_embeddings_list := real_embeddings_list st @ [r],
                      fake_embeddings_list := fake_embeddings_list st @ [f],
                      cur_samples := cur_samples st + int n\<rparr>"
    unfolding embed_body_def by (auto simp: ebind_eq_Inr)
  have "n = batch_len ti b" using e by (rule embed_batch_len)
  then show ?thesis using e s by blast
qed

text \<open>What a loop that ended without an exception has done, from any starting state.\<close>

lemma embed_loop_run:
  assumes "for_loop embed_stop (embed_body lib gen gt gti ti ci z) st bs = (None, st')"
  shows "\<exists>k \<le> length bs.
           inst st' = inst st
         \<and> length (real_embeddings_list st') = length (real_embeddings_list st) + k
         \<and> length (fake_embeddings_list st') = length (fake_embeddings_list st) + k
         \<and> cur_samples st' = cur_samples st + samples_upto ti bs k
         \<and> (\<forall>j < k. cur_samples st + samples_upto ti bs j < n_samples (inst st))
         \<and> (k < length bs \<longrightarrow> n_samples (inst st) \<le> cur_samples st')"
  using assms
proof (induction bs arbitrary: st)
  case Nil
  then show ?case by (simp add: samples_upto_def)
next
  case (Cons b bs)
  show ?case
  proof (cases "embed_stop st")
    case True
    then have "st' = st" using Cons.prems by simp
    then show ?thesis using True
      by (intro exI[of _ 0]) (simp add: samples_upto_def embed_stop_def)
  next
    case False
    then obtain st1 where
      b: "embed_body lib gen gt gti ti ci z st b = Inr st1" and
      l: "for_loop embed_stop (embed_body lib gen gt gti ti ci z) st1 bs = (None, st')"
      using Cons.prems by (auto split: sum.splits)
    from embed_body_Inr[OF b] obtain r f where
      s1: "st1 = st\<lparr>real_embeddings_list := real_embeddings_list st @ [r],
                      fake_embeddings_list := fake_embeddings_list st @ [f],
                      cur_samples := cur_samples st + int (batch_len ti b)\<rparr>"
      by blast
    from Cons.IH[OF l] obtain k where k: "k \<le> length bs"
      "inst st' = inst st1"
      "length (real_embeddings_list st') = length (real_embeddings_list st1) + k"
      "length (fake_embeddings_list st') = length (fake_embeddings_list st1) + k"
      "cur_samples st' = cur_samples st1 + samples_upto ti bs k"
      "\<forall>j < k. cur_samples st1 + samples_upto ti bs j < n_samples (inst st1)"
      "k < length bs \<longrightarrow> n_samples (inst st1) \<le> cur_samples st'"
      by blast
    have up: "samples_upto ti (b # bs) (Suc j) = int (batch_len ti b) + samples_upto ti bs j" for j
      by (simp add: samples_upto_def)
    have lt: "cur_samples st + samples_upto ti (b # bs) j < n_samples (inst st)" if "j < Suc k" for j
    proof (cases j)
      case 0
      then show ?thesis using False by (simp add: samples_upto_def embed_stop_def)
    next
      case (Suc i)
      then have "i < k" using that by simp
      then have "cur_samples st1 + samples_upto ti bs i < n_samples (inst st1)"
        using k(6) by blast
      then show ?thesis using s1 Suc by (simp add: up add.assoc)
    qed
    show ?thesis
      using k s1 lt by (intro exI[of _ "Suc k"]) (simp add: up)
  qed
qed

lemma for_loop_invariant:
  assumes "I st" and "\<And>s b s'. I s \<Longrightarrow> b \<in> set bs \<Longrightarrow> body s b = Inr s' \<Longrightarrow> I s'"
  shows "I (snd (for_loop stop body st bs))"
  using assms
proof (induction bs arbitrary: st)
  case Nil
  then show ?case by simp
next
  case (Cons b bs)
  show ?case
  proof (cases "stop st")
    case True
    then show ?thesis using Cons.prems(1) by simp
  next
    case False
    show ?thesis
    proof (cases "body st b")
      case (Inl e)
      then show ?thesis using False Cons.prems(1) by simp
    next
      case (Inr st1)
      have b: "b \<in> set (b # bs)" by simp
      have i1: "I st1" using Cons.prems(2)[OF Cons.prems(1) b Inr] .
      have step: "\<And>s c s'. I s \<Longrightarrow> c \<in> set bs \<Longrightarrow> body s c = Inr s' \<Longrightarrow> I s'"
      proof -
        fix s c s'
        assume "I s" "c \<in> set bs" "body s c = Inr s'"
        moreover from this have "c \<in> set (b # bs)" by simp
        ultimately show "I s'" using Cons.prems(2) by blast
      qed
      have "I (snd (for_loop stop body st1 bs))" using i1 step by (rule Cons.IH)
      then show ?thesis using False Inr by simp
    qed
  qed
qed

lemma embed_loop_inst:
  "inst (snd (for_loop embed_stop (embed_body lib gen gt gti ti ci z) st bs)) = inst st"
proof (rule for_loop_invariant[where I = "\<lambda>s. inst s = inst st"])
  show "inst st = inst st" by simp
next
  fix s b s'
  assume "inst s = inst st" "embed_body lib gen gt gti ti ci z s b = Inr s'"
  then show "inst s' = inst st" using embed_body_Inr[of lib gen gt gti ti ci z s b s'] by auto
qed

lemma embed_loop_rows:
  assumes "embeds_rows lib (inst st)"
    and "int (length (concat (real_embeddings_list st))) = cur_samples st"
  shows "int (length (concat (real_embeddings_list
            (snd (for_loop embed_stop (embed_body lib gen gt gti ti ci z) st bs)))))
         = cur_samples (snd (for_loop embed_stop (embed_body lib gen gt gti ti ci z) st bs))"
proof -
  let ?I = "\<lambda>s. inst s = inst st \<and> int (length (concat (real_embeddings_list s))) = cur_samples s"
  have "?I (snd (for_loop embed_stop (embed_body lib gen gt gti ti ci z) st bs))"
  proof (rule for_loop_invariant[where I = ?I])
    show "?I st" using assms(2) by simp
  next
    fix s b s'
    assume i: "?I s" and b: "embed_body lib gen gt gti ti ci z s b = Inr s'"
    from embed_body_Inr[OF b] obtain r f where
      e: "embed_batch lib (inst s) gen gt gti ti ci z (length (real_embeddings_list s)) b
            = Inr (r, f, batch_len ti b)" and
      s': "s' = s\<lparr>real_embeddings_list := real_embeddings_list s @ [r],
                     fake_embeddings_list := fake_embeddings_list s @ [f],
                     cur_samples := cur_samples s + int (batch_len ti b)\<rparr>"
      by blast
    have "embeds_rows lib (inst s)" using assms(1) i by simp
    with e have "length r = batch_len ti b" by (rule embed_batch_rows)
    then show "?I s'" using i s' by simp
  qed
  then show ?thesis by simp
qed

text \<open>
  When the loop of \<open>get_embeddings\<close> ends without an exception over a loader that
  yields at least \<open>n_samples\<close> samples, it has consumed the first \<open>k\<close> batches, one real
  and one fake batch of embeddings for each; \<open>cur_samples\<close> is the number of samples of
  these batches; before each of them the count was still below \<open>n_samples\<close>; the count
  is at least \<open>n_samples\<close> and, when a batch was consumed, at most \<open>n_samples\<close> plus the
  size of the last one minus 1; and it is the number of real rows collected when the
  network returns one row for each sample.
\<close>

lemma embed_loop_sample_count:
  assumes "embed_loop lib self dataloader gen gt gti ti ci z = (None, st)"
    and "n_samples self \<le> samples_upto ti dataloader (length dataloader)"
  shows "\<exists>k \<le> length dataloader.
           length (real_embeddings_list st) = k \<and> length (fake_embeddings_list st) = k
         \<and> cur_samples st = samples_upto ti dataloader k
         \<and> (\<forall>j < k. samples_upto ti dataloader j < n_samples self)
         \<and> n_samples self \<le> cur_samples st
         \<and> (0 < k \<longrightarrow>
               cur_samples st \<le> n_samples self + int (batch_len ti (dataloader ! (k - 1))) - 1)
         \<and> (embeds_rows lib self \<longrightarrow>
               int (length (concat (real_embeddings_list st))) = cur_samples st)"
proof -
  let ?st0 = "\<lparr>inst = self, cur_samples = 0, real_embeddings_list = [],
               fake_embeddings_list = []\<rparr>"
  have l: "for_loop embed_stop (embed_body lib gen gt gti ti ci z) ?st0 dataloader = (None, st)"
    using assms(1) by (simp add: embed_loop_def)
  from embed_loop_run[OF l] obtain k where k: "k \<le> length dataloader"
    "length (real_embeddings_list st) = k" "length (fake_embeddings_list st) = k"
    "cur_samples st = samples_upto ti dataloader k"
    "\<forall>j < k. samples_upto ti dataloader j < n_samples self"
    "k < length dataloader \<longrightarrow> n_samples self \<le> cur_samples st"
    by auto
  have ge: "n_samples self \<le> cur_samples st"
  proof (cases "k < length dataloader")
    case True
    then show ?thesis using k(6) by simp
  next
    case False
    then have "k = length dataloader" using k(1) by simp
    then show ?thesis using assms(2) k(4) by simp
  qed
  have ub: "cur_samples st \<le> n_samples self + int (batch_len ti (dataloader ! (k - 1))) - 1"
    if "0 < k"
  proof -
    have km: "k - 1 < k" using that by simp
    have t: "take k dataloader = take (k - 1) dataloader @ [dataloader ! (k - 1)]"
      using that k(1) take_Suc_conv_app_nth[of "k - 1" dataloader] by simp
    have "samples_upto ti dataloader k
          = samples_upto ti dataloader (k - 1) + int (batch_len ti (dataloader ! (k - 1)))"
      unfolding samples_upto_def t by simp
    moreover have "samples_upto ti dataloader (k - 1) < n_samples self" using k(5) km by blast
    ultimately show ?thesis using k(4) by simp
  qed
  have rows: "int (length (concat (real_embeddings_list st))) = cur_samples st"
    if "embeds_rows lib self"
    using embed_loop_rows[of lib ?st0 gen gt gti ti ci z dataloader] that l by simp
  show ?thesis using k(1-5) ge ub rows by blast
qed

text \<open>The loop on the small instance, with two batches of two samples and \<open>n_samples = 2\<close>.\<close>

lemma demo_loop:
  "embed_loop demo_library demo_FID [pair_batch, pair_batch] first_arg_gen Inr Inr
      (Some 0) (Some (CTuple [1])) None
   = (None, \<lparr>inst = demo_FID, cur_samples = 2,
              real_embeddings_list = [[[Fin 0], [Fin 0]]],
              fake_embeddings_list = [[[Fin 0], [Fin 0]]]\<rparr>)"
  by (simp add: embed_loop_def embed_stop_def embed_body_def embed_batch_def target_of_def
        pyval_index_def py_index_def to_device_def demo_library_def demo_FID_def
        demo_inception_def inception_forward_def fc_forward_def tensor_len_def
        gen_inputs_of_def call_unpacked_def last_output_def first_arg_gen_def pair_batch_def)

lemma demo_total: "n_samples demo_FID \<le> samples_upto (Some 0) [pair_batch, pair_batch] 2"
  by (simp add: demo_FID_def samples_upto_def batch_len_def target_of_def pyval_index_def
        py_index_def pair_batch_def first_dim_def)

lemma demo_embeds_rows: "embeds_rows demo_library demo_FID"
  unfolding embeds_rows_def
proof (intro allI impI)
  fix t m
  assume "ebind (InceptionV3Transforms demo_library t) (inception_forward (inception demo_FID)) = Inr m"
  then show "first_dim t = Some (length m)"
    by (cases t)
       (auto simp: demo_library_def demo_FID_def demo_inception_def inception_forward_def
          fc_forward_def first_dim_def ebind_eq_Inr)
qed

lemma cat0_Inr: "cat0 ms = Inr M \<Longrightarrow> M = concat ms"
  by (auto simp: cat0_def split: if_splits)

lemma cat0_nonempty: "cat0 ms = Inr M \<Longrightarrow> ms \<noteq> []"
  by (auto simp: cat0_def split: if_splits)

text \<open>
  The same for the method and the tensor of real embeddings that it returns: a run that
  returns has consumed at least one batch, and the rows of the real tensor are as many
  as the samples counted.
\<close>

lemma get_embeddings_real_rows:
  assumes g: "get_embeddings lib self dataloader gen gt ti ci z = (Inr (R, F), self')"
    and tot: "n_samples self \<le> samples_upto ti dataloader (length dataloader)"
  shows "\<exists>k. 0 < k \<and> k \<le> length dataloader
           \<and> (\<forall>j < k. samples_upto ti dataloader j < n_samples self)
           \<and> n_samples self \<le> samples_upto ti dataloader k
           \<and> samples_upto ti dataloader k
               \<le> n_samples self + int (batch_len ti (dataloader ! (k - 1))) - 1
           \<and> (embeds_rows lib self \<longrightarrow> int (length R) = samples_upto ti dataloader k)"
proof -
  from g obtain gti where gti: "invert_transforms lib gt = Inr gti"
    by (cases "invert_transforms lib gt") (auto simp: get_embeddings_def)
  have bs: "batch_size self \<noteq> 0"
    using g gti by (auto simp: get_embeddings_def split: if_splits)
  obtain err st where l: "embed_loop lib self dataloader gen gt gti ti ci z = (err, st)"
    by (cases "embed_loop lib self dataloader gen gt gti ti ci z") blast
  have en: "err = None" using g gti bs l by (cases err) (simp_all add: get_embeddings_def)
  have c: "ebind (cat0 (real_embeddings_list st)) (\<lambda>real_embeddings.
           ebind (cat0 (fake_embeddings_list st)) (\<lambda>fake_embeddings.
           Inr (real_embeddings, fake_embeddings))) = (Inr (R, F) :: 'a exn + mat \<times> mat)"
    using g gti bs l en by (simp add: get_embeddings_def)
  then have R: "R = concat (real_embeddings_list st)" and ne: "real_embeddings_list st \<noteq> []"
    by (auto simp: ebind_eq_Inr dest: cat0_Inr cat0_nonempty)
  from embed_loop_sample_count[OF l[unfolded en] tot] obtain k where k: "k \<le> length dataloader"
    "length (real_embeddings_list st) = k"
    "cur_samples st = samples_upto ti dataloader k"
    "\<forall>j < k. samples_upto ti dataloader j < n_samples self"
    "n_samples self \<le> cur_samples st"
    "0 < k \<longrightarrow> cur_samples st \<le> n_samples self + int (batch_len ti (dataloader ! (k - 1))) - 1"
    "embeds_rows lib self \<longrightarrow> int (length (concat (real_embeddings_list st))) = cur_samples st"
    by blast
  have kp: "0 < k" using ne k(2) by auto
  show ?thesis
    using kp k(1,3,4,5,6,7) R by (intro exI[of _ k]) simp
qed


section \<open>The instance after a call\<close>

lemma get_embeddings_self:
  "get_embeddings lib self dl gen gt ti ci z = (x, s) \<Longrightarrow> s = self"
proof -
  assume a: "get_embeddings lib self dl gen gt ti ci z = (x, s)"
  have i: "inst (snd (embed_loop lib self dl gen gt gti ti ci z)) = self" for gti
    using embed_loop_inst[of lib gen gt gti ti ci z
        "\<lparr>inst = self, cur_samples = 0, real_embeddings_list = [], fake_embeddings_list = []\<rparr>" dl]
    by (simp add: embed_loop_def)
  show ?thesis
  proof (cases "invert_transforms lib gt")
    case (Inl e)
    then show ?thesis using a by (simp add: get_embeddings_def)
  next
    case (Inr gti)
    show ?thesis
    proof (cases "batch_size self = 0")
      case True
      then show ?thesis using a Inr by (simp add: get_embeddings_def)
    next
      case False
      obtain err st where l: "embed_loop lib self dl gen gt gti ti ci z = (err, st)"
        by (cases "embed_loop lib self dl gen gt gti ti ci z") blast
      have "inst st = self" using i[of gti] l by simp
      then show ?thesis using a Inr False l
        by (cases err) (simp_all add: get_embeddings_def)
    qed
  qed
qed

lemma FID_forward_self:
  "snd (FID_forward lib self dataset gen gt ti ci z) = self"
proof (cases "DataLoader lib dataset (batch_size self)")
  case (Inl e)
  then show ?thesis by (simp add: FID_forward_def)
next
  case (Inr dl)
  obtain x s where g: "get_embeddings lib self dl gen gt ti ci z = (x, s)"
    by (cases "get_embeddings lib self dl gen gt ti ci z") blast
  have "s = self" using g by (rule get_embeddings_self)
  then show ?thesis using Inr g by (simp add: FID_forward_def)
qed

lemma predict_loop_owner:
  "owner (snd (for_loop predict_stop (predict_body lib gen gt gti ci z) st dl)) = owner st"
proof (rule for_loop_invariant[where I = "\<lambda>s. owner s = owner st"])
  show "owner st = owner st" by simp
next
  fix s b s'
  assume "owner s = owner st" "predict_body lib gen gt gti ci z s b = Inr s'"
  then show "owner s' = owner st" by (auto simp: predict_body_def ebind_eq_Inr)
qed

lemma IS_forward_self:
  "snd (IS_forward lib self dataset gen gt ti ci z) = self"
proof (cases "DataLoader lib dataset (batch_size self)")
  case (Inl e)
  then show ?thesis by (simp add: IS_forward_def)
next
  case (Inr dl)
  show ?thesis
  proof (cases "invert_transforms lib gt")
    case (Inl e)
    then show ?thesis using Inr by (simp add: IS_forward_def)
  next
    case gti: (Inr gti)
    show ?thesis
    proof (cases "batch_size self = 0")
      case True
      then show ?thesis using Inr gti by (simp add: IS_forward_def)
    next
      case False
      let ?st0 = "\<lparr>owner = self, seen_samples = 0, fake_predictions_list = []\<rparr>"
      obtain err st where
        l: "for_loop predict_stop (predict_body lib gen gt gti ci z) ?st0 dl = (err, st)"
        by (cases "for_loop predict_stop (predict_body lib gen gt gti ci z) ?st0 dl") blast
      have "owner st = self" using predict_loop_owner[of lib gen gt gti ci z ?st0 dl] l by simp
      then show ?thesis using Inr gti False l
        by (cases err) (simp_all add: IS_forward_def)
    qed
  qed
qed

text \<open>
  Claim C7.  The instance that \<open>get_embeddings\<close>, \<open>FID.forward\<close> and \<open>IS.forward\<close>
  leave behind is the instance they were called on, whether they return or raise: every
  attribute, also one that a subclass adds, is what it was, and nothing new is stored.
\<close>

theorem forward_keeps_instance:
  "snd (get_embeddings lib self dataloader gen gt ti ci z) = self
   \<and> snd (FID_forward lib self dataset gen gt ti ci z) = self
   \<and> snd (IS_forward lib self' dataset gen gt ti ci z) = self'"
  using get_embeddings_self[of lib self dataloader gen gt ti ci z
      "fst (get_embeddings lib self dataloader gen gt ti ci z)"
      "snd (get_embeddings lib self dataloader gen gt ti ci z)"]
  by (simp add: FID_forward_self IS_forward_self)

section \<open>The rows of the two embedding tensors\<close>

lemma sequence_Inr:
  "sequence ms = Inr vs \<Longrightarrow> list_all2 (\<lambda>m v. m = Inr v) ms vs"
proof (induction ms arbitrary: vs)
  case Nil
  then show ?case by simp
next
  case (Cons m ms)
  then obtain v ws where "m = Inr v" "sequence ms = Inr ws" "vs = v # ws"
    by (auto simp: ebind_eq_Inr)
  then show ?case using Cons.IH by simp
qed

lemma sequence_map_Inr_elems:
  assumes "sequence (map g xs) = Inr vs"
  shows "length vs = length xs" and "\<And>v. v \<in> set vs \<Longrightarrow> \<exists>x \<in> set xs. g x = Inr v"
proof -
  have a: "list_all2 (\<lambda>m v. m = Inr v) (map g xs) vs" using assms by (rule sequence_Inr)
  then show "length vs = length xs" by (auto dest: list_all2_lengthD)
  fix v assume "v \<in> set vs"
  then obtain i where i: "i < length vs" "vs ! i = v" by (auto simp: in_set_conv_nth)
  have "length (map g xs) = length vs" using a by (rule list_all2_lengthD)
  then have "map g xs ! i = Inr (vs ! i)" using a i(1) by (auto dest: list_all2_nthD2)
  then show "\<exists>x \<in> set xs. g x = Inr v" using i \<open>length (map g xs) = length vs\<close> by auto
qed

lemma py_index_mem: "py_index xs i = Inr v \<Longrightarrow> v \<in> set xs"
  by (auto simp: py_index_def split: if_splits)

lemma embed_batch_fake_rows:
  assumes e: "embed_batch lib self gen gt gti ti (Some (CTuple idx)) z d b = Inr (r, f, n)"
    and idx: "idx \<noteq> []" and u: "uniform_batch b"
    and kgt: "keeps_first_dim gt" and kgti: "keeps_first_dim gti"
    and bp: "batch_preserving gen" and er: "embeds_rows lib self"
  shows "length f = n"
proof -
  from u obtain ts m where b: "b = PSeq ts" and ts: "\<forall>t \<in> set ts. first_dim t = Some m"
    by (auto simp: uniform_batch_def)
  from e obtain t0 t1 gi out fo fo' y where
    t0: "target_of ti b = (Inr t0 :: 'a exn + tensor)" and
    t1: "to_device lib (device self) t0 = Inr t1" and
    n: "tensor_len t1 = (Inr n :: 'a exn + nat)" and
    gi: "gen_inputs_of lib (device self) gt (Some (CTuple idx)) z d n b = Inr gi" and
    out: "call_unpacked gen gi = Inr out" and
    fo: "last_output out = (Inr fo :: 'a exn + tensor)" and
    fo': "gti fo = Inr fo'" and
    y: "InceptionV3Transforms lib fo' = Inr y" and
    f: "inception_forward (inception self) y = Inr f"
    unfolding embed_batch_def by (auto simp: ebind_eq_Inr)
  have "t0 \<in> set ts"
    using t0 b by (auto simp: target_of_def pyval_index_def split: option.splits dest: py_index_mem)
  moreover have "t1 = t0" using t1 by (rule to_device_Inr)
  ultimately have nm: "n = m" using n ts by (auto simp: tensor_len_first_dim)
  from gi obtain raw gs where
    raw: "sequence (map (pyval_index b) idx) = (Inr raw :: 'a exn + tensor list)" and
    gs: "sequence (map (\<lambda>g. ebind (gt g) (to_device lib (device self))) raw) = Inr gs" and
    gi': "gi = PSeq gs"
    unfolding gen_inputs_of_def by (auto simp: ebind_eq_Inr)
  have rawm: "first_dim v = Some m" if "v \<in> set raw" for v
  proof -
    from sequence_map_Inr_elems(2)[OF raw that] obtain i where
      "pyval_index b i = (Inr v :: 'a exn + tensor)" by blast
    then have "v \<in> set ts" using b by (auto simp: pyval_index_def dest: py_index_mem)
    then show ?thesis using ts by blast
  qed
  have gsm: "first_dim v = Some m" if "v \<in> set gs" for v
  proof -
    from sequence_map_Inr_elems(2)[OF gs that] obtain g where
      g: "g \<in> set raw" "ebind (gt g) (to_device lib (device self)) = Inr v" by blast
    then obtain g' where "gt g = Inr g'" "to_device lib (device self) g' = Inr v"
      by (auto simp: ebind_eq_Inr)
    then have "first_dim v = first_dim g"
      using kgt by (auto simp: keeps_first_dim_def dest: to_device_Inr)
    then show ?thesis using rawm g(1) by simp
  qed
  have "length gs = length idx"
    using sequence_map_Inr_elems(1)[OF gs] sequence_map_Inr_elems(1)[OF raw] by simp
  then have ne: "gs \<noteq> []" using idx by auto
  have "gen gs = Inr out" using out gi' by (simp add: call_unpacked_def)
  then have "first_dim fo = Some m"
    using bp fo ne gsm unfolding batch_preserving_def by blast
  then have "first_dim fo' = Some m" using kgti fo' by (auto simp: keeps_first_dim_def)
  moreover have "ebind (InceptionV3Transforms lib fo') (inception_forward (inception self)) = Inr f"
    using y f by simp
  then have "first_dim fo' = Some (length f)" using er by (simp add: embeds_rows_def)
  ultimately show ?thesis using nm by simp
qed

lemma embed_loop_same_rows:
  assumes idx: "idx \<noteq> []" and u: "\<forall>b \<in> set bs. uniform_batch b"
    and kgt: "keeps_first_dim gt" and kgti: "keeps_first_dim gti"
    and bp: "batch_preserving gen" and er: "embeds_rows lib (inst st)"
    and eq: "length (concat (real_embeddings_list st)) = length (concat (fake_embeddings_list st))"
  shows "length (concat (real_embeddings_list
            (snd (for_loop embed_stop (embed_body lib gen gt gti ti (Some (CTuple idx)) z) st bs))))
       = length (concat (fake_embeddings_list
            (snd (for_loop embed_stop (embed_body lib gen gt gti ti (Some (CTuple idx)) z) st bs))))"
proof -
  let ?I = "\<lambda>s. inst s = inst st
              \<and> length (concat (real_embeddings_list s)) = length (concat (fake_embeddings_list s))"
  have "?I (snd (for_loop embed_stop (embed_body lib gen gt gti ti (Some (CTuple idx)) z) st bs))"
  proof (rule for_loop_invariant[where I = ?I])
    show "?I st" using eq by simp
  next
    fix s b s'
    assume i: "?I s" and m: "b \<in> set bs"
      and b: "embed_body lib gen gt gti ti (Some (CTuple idx)) z s b = Inr s'"
    from embed_body_Inr[OF b] obtain r f where
      e: "embed_batch lib (inst s) gen gt gti ti (Some (CTuple idx)) z
            (length (real_embeddings_list s)) b = Inr (r, f, batch_len ti b)" and
      s': "s' = s\<lparr>real_embeddings_list := real_embeddings_list s @ [r],
                     fake_embeddings_list := fake_embeddings_list s @ [f],
                     cur_samples := cur_samples s + int (batch_len ti b)\<rparr>"
      by blast
    have er': "embeds_rows lib (inst s)" using er i by simp
    have ub: "uniform_batch b" using u m by blast
    have "length r = batch_len ti b" using e er' by (rule embed_batch_rows)
    moreover have "length f = batch_len ti b"
      using e idx ub kgt kgti bp er' by (rule embed_batch_fake_rows)
    ultimately show "?I s'" using i s' by simp
  qed
  then show ?thesis by simp
qed

text \<open>
  With condition indices, a tuple that is not empty, the two tensors that
  \<open>get_embeddings\<close> returns have the same number of rows when the components of every
  batch have the same number of samples and the transforms, the generator and the
  network keep that number: on this path the code does what claim C8 says.
\<close>

lemma get_embeddings_same_rows:
  assumes g: "get_embeddings lib self dataloader gen gt ti (Some (CTuple idx)) z
                = (Inr (R, F), self')"
    and idx: "idx \<noteq> []" and u: "\<forall>b \<in> set dataloader. uniform_batch b"
    and kgt: "keeps_first_dim gt"
    and kgti: "\<forall>gti. invert_transforms lib gt = Inr gti \<longrightarrow> keeps_first_dim gti"
    and bp: "batch_preserving gen" and er: "embeds_rows lib self"
  shows "length R = length F"
proof -
  let ?st0 = "\<lparr>inst = self, cur_samples = 0, real_embeddings_list = [],
               fake_embeddings_list = []\<rparr>"
  from g obtain gti where gti: "invert_transforms lib gt = Inr gti"
    by (cases "invert_transforms lib gt") (auto simp: get_embeddings_def)
  have bs: "batch_size self \<noteq> 0"
    using g gti by (auto simp: get_embeddings_def split: if_splits)
  obtain err st where l: "embed_loop lib self dataloader gen gt gti ti (Some (CTuple idx)) z = (err, st)"
    by (cases "embed_loop lib self dataloader gen gt gti ti (Some (CTuple idx)) z") blast
  have c: "ebind (cat0 (real_embeddings_list st)) (\<lambda>real_embeddings.
           ebind (cat0 (fake_embeddings_list st)) (\<lambda>fake_embeddings.
           Inr (real_embeddings, fake_embeddings))) = (Inr (R, F) :: 'a exn + mat \<times> mat)"
    using g gti bs l by (cases err) (simp_all add: get_embeddings_def)
  then have R: "R = concat (real_embeddings_list st)" and F: "F = concat (fake_embeddings_list st)"
    by (auto simp: ebind_eq_Inr dest: cat0_Inr)
  have k: "keeps_first_dim gti" using kgti gti by blast
  have "length (concat (real_embeddings_list (snd (embed_loop lib self dataloader gen gt gti ti
                  (Some (CTuple idx)) z))))
      = length (concat (fake_embeddings_list (snd (embed_loop lib self dataloader gen gt gti ti
                  (Some (CTuple idx)) z))))"
    unfolding embed_loop_def
    using idx u kgt k bp by (rule embed_loop_same_rows) (simp_all add: er)
  then show ?thesis using l R F by simp
qed

text \<open>The method on the small instance, with condition indices.\<close>

lemma demo_pair_run:
  "get_embeddings demo_library demo_FID [pair_batch, pair_batch] first_arg_gen Inr
      (Some 0) (Some (CTuple [1])) None
   = (Inr ([[Fin 0], [Fin 0]], [[Fin 0], [Fin 0]]), demo_FID)"
proof -
  have i: "invert_transforms demo_library Inr = Inr Inr" by (simp add: demo_library_def)
  have b: "batch_size demo_FID \<noteq> 0" by (simp add: demo_FID_def)
  show ?thesis by (simp add: get_embeddings_def i b demo_loop cat0_def ncols_def)
qed

lemma demo_uniform: "uniform_batch pair_batch"
  by (simp add: uniform_batch_def pair_batch_def first_dim_def)

lemma demo_keeps: "keeps_first_dim (Inr :: unit transform)"
  by (simp add: keeps_first_dim_def)

lemma demo_gen: "batch_preserving first_arg_gen"
  unfolding batch_preserving_def
proof (intro allI impI)
  fix args out t n
  assume g: "first_arg_gen args = Inr out" and l: "last_output out = (Inr t :: unit exn + tensor)"
    and ne: "args \<noteq> []" and a: "\<forall>a \<in> set args. first_dim a = Some n"
  from ne obtain x xs where args: "args = x # xs" by (cases args) auto
  then have "out = PTensor x" using g by (simp add: first_arg_gen_def)
  then have "t = x" using l by (simp add: last_output_def)
  then show "first_dim t = Some n" using a args by simp
qed

text \<open>
  Claim C8.  Without condition indices the two tensors differ in their rows.  The noise
  tensor has one row for each sample of the batch, but \<open>gen(*gen_inputs)\<close> unpacks it:
  the generator receives each row as an argument of its own, a tensor of \<open>z_dim\<close>
  elements, and not one batch of \<open>cur_batch_size\<close> inputs.  Here the batch has two
  samples and \<open>z_dim\<close> is 3; the generator, which returns its first argument, returns
  three samples, and three rows of fake embeddings stand against two rows of real ones.
\<close>

theorem get_embeddings_noise_rows_differ:
  "get_embeddings demo_library demo_FID [single_batch] first_arg_gen Inr None None (Some 3)
   = (Inr ([[Fin 0], [Fin 0]], [[Fin 0], [Fin 0], [Fin 0]]), demo_FID)
   \<and> length [[Fin 0], [Fin 0 :: fl]] \<noteq> length [[Fin 0], [Fin 0], [Fin 0 :: fl]]"
  by (simp add: get_embeddings_def embed_loop_def embed_stop_def embed_body_def embed_batch_def
        target_of_def to_device_def demo_library_def demo_FID_def
        demo_inception_def inception_forward_def fc_forward_def tensor_len_def
        gen_inputs_of_def call_unpacked_def tensor_unpack_def last_output_def first_arg_gen_def
        single_batch_def cat0_def ncols_def numeral_3_eq_3)

section \<open>\<open>FID.forward\<close> as a pipeline\<close>

text \<open>
  Claim C4.  Once the data loader is built, \<open>FID.forward\<close> is \<open>get_embeddings\<close>
  followed, on the two embedding matrices it returns, by the score of four statistics:
  the mean of each matrix over the sample dimension and its covariance matrix, handed to
  \<open>_frechet_distance\<close>.  An exception of \<open>get_embeddings\<close> is the outcome; nothing is
  fed back.  The score is a function of the four statistics, so it depends on the
  embeddings through them only.  The mean over the sample dimension of a matrix of
  finite values is, for each column, the arithmetic mean of the column.
\<close>

theorem FID_forward_pipeline:
  assumes "DataLoader lib dataset (batch_size self) = Inr dataloader"
  shows "fst (FID_forward lib self dataset gen gt ti ci z)
         = ebind (fst (get_embeddings lib self dataloader gen gt ti ci z)) (\<lambda>(R, F).
             score_of_statistics lib (mean_dim0 R) (mean_dim0 F) (cov lib R) (cov lib F))
       \<and> (\<forall>N k P. is_mat N k P \<and> 0 < N
             \<longrightarrow> mean_dim0 (map (map Fin) P) = map Fin (marginal P))"
proof -
  obtain r s where g: "get_embeddings lib self dataloader gen gt ti ci z = (r, s)"
    by (cases "get_embeddings lib self dataloader gen gt ti ci z") blast
  have "fst (FID_forward lib self dataset gen gt ti ci z)
         = ebind (fst (get_embeddings lib self dataloader gen gt ti ci z)) (\<lambda>(R, F).
             score_of_statistics lib (mean_dim0 R) (mean_dim0 F) (cov lib R) (cov lib F))"
    using assms g
    by (cases r) (auto simp: FID_forward_def score_of_statistics_def Let_def)
  then show ?thesis using mean_dim0_Fin by blast
qed

lemma upt1: "[0..<Suc 0] = [0]"
  by simp

theorem FID_forward_pipeline_witness:
  "DataLoader demo_library [pair_batch, pair_batch] (batch_size demo_FID)
     = Inr [pair_batch, pair_batch]
   \<and> fst (FID_forward demo_library demo_FID [pair_batch, pair_batch] first_arg_gen Inr
            (Some 0) (Some (CTuple [1])) None) = Inr (Fin 0)
   \<and> mean_dim0 (map (map Fin) [[1, 2], [3, 4]]) = map Fin [2, 3]"
proof -
  have d: "DataLoader demo_library [pair_batch, pair_batch] (batch_size demo_FID)
             = Inr [pair_batch, pair_batch]"
    by (simp add: demo_library_def)
  have m: "mean_dim0 [[Fin 0], [Fin 0]] = [Fin 0]"
    by (simp add: mean_dim0_def ncols_def column_def mean1_def fsum_def)
  have c: "cov demo_library [[Fin 0], [Fin 0]] = Inr [[Fin 0]]"
    by (simp add: demo_library_def)
  have q: "matrix_sqrt demo_library = Inr" by (simp add: demo_library_def)
  have f: "(frechet_distance Inr [Fin 0] [Fin 0] [[Fin 0]] [[Fin 0]] :: unit exn + fl) = Inr (Fin 0)"
    by (simp add: frechet_distance_def broadcast1_def broadcast2_def matmul_def ncols_def
          column_def fsum_def scale_def trace_def norm2_def fsq_def fsub_def)
  have s: "score_of_statistics demo_library [Fin 0] [Fin 0] (Inr [[Fin 0]]) (Inr [[Fin 0]])
           = Inr (Fin 0)"
    by (simp add: score_of_statistics_def q f)
  have im: "is_mat 2 2 [[1, 2], [3, 4 :: real]]" by (simp add: is_mat_def)
  have mg: "marginal [[1, 2], [3, 4]] = [2, 3]"
    by (simp add: marginal_def ncols_def upt2 column_def)
  note p = FID_forward_pipeline [OF d, of first_arg_gen Inr "Some 0" "Some (CTuple [1])" None]
  have t: "fst (FID_forward demo_library demo_FID [pair_batch, pair_batch] first_arg_gen Inr
            (Some 0) (Some (CTuple [1])) None) = Inr (Fin 0)"
    using p by (simp add: demo_pair_run m c s del: map_map list.map)
  have "is_mat 2 2 [[1, 2], [3, 4 :: real]] \<and> (0 :: nat) < 2
        \<longrightarrow> mean_dim0 (map (map Fin) [[1, 2], [3, 4]]) = map Fin (marginal [[1, 2], [3, 4]])"
    using p by blast
  then have t2: "mean_dim0 (map (map Fin) [[1, 2], [3, 4]]) = map Fin (marginal [[1, 2], [3, 4]])"
    using im by simp
  show ?thesis using d t t2 mg by simp
qed

section \<open>The constructors\<close>

text \<open>
  Claim C10.  An instance of \<open>IS\<close> is what the constructor of \<open>FID\<close> returns for
  \<open>crop_fc=False\<close>, extended by \<open>inception_sm\<close>: its network is the loaded one, the last
  layer included, and \<open>inception_sm\<close> is this network followed by a softmax over
  dimension 1, so that it returns the softmax of each row of the network's output.  An
  instance of \<open>FID\<close> constructed with \<open>crop_fc=True\<close>, which is the default, whatever its
  other arguments, has \<open>nn.Identity()\<close> for the last layer of its network, which
  therefore returns the features as they are.
\<close>

theorem IS_keeps_fc_FID_crops_it:
  assumes "IS_init lib chkpts_root n b dev = Inr s"
    and "FID_init lib chkpts_root0 dev0 n0 b0 True = Inr f"
  shows "FID_init lib chkpts_root dev n b False = Inr (FID_of s)
       \<and> load_inception lib chkpts_root (device s) = Inr (inception s)
       \<and> inception_sm s = Sequential (inception s) (Softmax 1)
       \<and> (\<forall>x. sequential_forward (inception_sm s) x
               = ebind (inception_forward (inception s) x) (\<lambda>A. Inr (map softmax_row A)))
       \<and> fc (inception f) = Identity
       \<and> (\<forall>x. inception_forward (inception f) x = features (inception f) x)"
proof -
  from assms(1) obtain s0 where
    s0: "FID_init lib chkpts_root dev n b False = Inr s0" and
    s: "s = \<lparr>inside_colab = inside_colab s0, tqdm = tqdm s0, inception = inception s0,
             device = device s0, n_samples = n_samples s0, batch_size = batch_size s0,
             inception_sm = Sequential (inception s0) (Softmax 1)\<rparr>"
    by (auto simp: IS_init_def ebind_eq_Inr)
  have a: "FID_of s = s0" using s by (simp add: FID_of_def)
  from s0 obtain net where
    net: "load_inception lib chkpts_root (device s0) = Inr net" "inception s0 = net"
    by (auto simp: FID_init_def Let_def ebind_eq_Inr)
  have sm: "sequential_forward (inception_sm s) x
            = ebind (inception_forward (inception s) x) (\<lambda>A. Inr (map softmax_row A))" for x
  proof -
    have "softmax_forward (Softmax 1) = (\<lambda>A. (Inr (map softmax_row A) :: 'a exn + mat))"
      by (rule ext) (simp add: softmax_forward_def)
    then show ?thesis using s by (simp add: sequential_forward_def)
  qed
  from assms(2) obtain net' where f: "inception f = net'\<lparr>fc := Identity\<rparr>"
    by (auto simp: FID_init_def Let_def ebind_eq_Inr)
  have ff: "inception_forward (inception f) x = features (inception f) x" for x
    using f by (cases "features net' x") (simp_all add: inception_forward_def fc_forward_def)
  show ?thesis using s0 a net s sm f ff by simp
qed

theorem IS_keeps_fc_FID_crops_it_witness:
  "IS_init demo_library ''.checkpoints'' 2 2 ''cpu'' = Inr demo_IS
   \<and> FID_init demo_library ''.checkpoints'' ''cuda'' 64 4 True
       = Inr \<lparr>inside_colab = False, tqdm = Tqdm, inception = demo_inception\<lparr>fc := Identity\<rparr>,
              device = ''cuda'', n_samples = 64, batch_size = 4\<rparr>
   \<and> FID_init_default demo_library
       = Inr \<lparr>inside_colab = False, tqdm = Tqdm, inception = demo_inception\<lparr>fc := Identity\<rparr>,
              device = ''cpu'', n_samples = 512, batch_size = 8\<rparr>
   \<and> fc (inception demo_IS) = Linear Inr
   \<and> inception_sm demo_IS = Sequential (inception demo_IS) (Softmax 1)
   \<and> fc (demo_inception\<lparr>fc := Identity\<rparr>) = Identity"
proof -
  have i: "IS_init demo_library ''.checkpoints'' 2 2 ''cpu'' = Inr demo_IS"
    by (simp add: IS_init_def FID_init_def demo_library_def demo_IS_def)
  have f: "FID_init demo_library ''.checkpoints'' ''cuda'' 64 4 True
       = Inr \<lparr>inside_colab = False, tqdm = Tqdm, inception = demo_inception\<lparr>fc := Identity\<rparr>,
              device = ''cuda'', n_samples = 64, batch_size = 4\<rparr>"
    by (simp add: FID_init_def demo_library_def)
  have d: "FID_init_default demo_library
       = Inr \<lparr>inside_colab = False, tqdm = Tqdm, inception = demo_inception\<lparr>fc := Identity\<rparr>,
              device = ''cpu'', n_samples = 512, batch_size = 8\<rparr>"
    by (simp add: FID_init_default_def FID_init_def demo_library_def)
  have l: "fc (inception demo_IS) = Linear Inr" by (simp add: demo_IS_def)
  show ?thesis using IS_keeps_fc_FID_crops_it [OF i f] i f d l by simp
qed

section \<open>The exceptions that surface\<close>


end
